theory Spec2Isabelle
  imports Complex_Main "HOL-Library.List_Lexorder" "HOL-Library.AList"
begin

section \<open>Python values\<close>

text \<open>
  The metric library of \<^verbatim>\<open>socialsim/metrics/metrics.py\<close> and the orchestration
  of \<^verbatim>\<open>socialsim/run.py\<close> are embedded as HOL functions. A raised exception is
  the left injection of a sum; \<^verbatim>\<open>None\<close> is a value of its own.

  Floating-point numbers are modelled as extended reals with a not-a-number: the
  rounding and the finite range of IEEE doubles are not modelled, and the two signed
  zeros are one value. Console output (\<^verbatim>\<open>print\<close>) is left out.
\<close>

datatype py_error =
  TypeError | ValueError | AttributeError | KeyError | IndexError | UnboundLocalError
  | Raised string

datatype pyfloat = Fin real | PosInf | NegInf | NaN

text \<open>A scalar cell: an integer, a float or a string.\<close>

datatype cell = PyInt int | PyFloat pyfloat | PyStr string

text \<open>
  A \<^verbatim>\<open>pandas.DataFrame\<close>, as far as the metrics read it: the columns, each a label
  with its content, in order, and the row index. \<^verbatim>\<open>len(df)\<close> is the number of
  index entries; every column of a table has that length.
\<close>

record 'a frame =
  cols :: "(string \<times> 'a list) list"
  index :: "'a list"

definition columns :: "'a frame \<Rightarrow> string list" where
  "columns f = map fst (cols f)"

datatype 'a pyobj = PyNone | PyScalar cell | PyList "'a list" | PyFrame "'a frame"

text \<open>What a metric returns: \<^verbatim>\<open>None\<close>, an integer or a float.\<close>

datatype pyres = RNone | RInt int | RFloat pyfloat

subsection \<open>Float arithmetic\<close>

fun pf_neg :: "pyfloat \<Rightarrow> pyfloat" where
  "pf_neg (Fin a) = Fin (- a)"
| "pf_neg PosInf = NegInf"
| "pf_neg NegInf = PosInf"
| "pf_neg NaN = NaN"

fun pf_add :: "pyfloat \<Rightarrow> pyfloat \<Rightarrow> pyfloat" where
  "pf_add (Fin a) (Fin b) = Fin (a + b)"
| "pf_add NaN _ = NaN"
| "pf_add _ NaN = NaN"
| "pf_add PosInf NegInf = NaN"
| "pf_add NegInf PosInf = NaN"
| "pf_add PosInf _ = PosInf"
| "pf_add _ PosInf = PosInf"
| "pf_add NegInf _ = NegInf"
| "pf_add _ NegInf = NegInf"

definition pf_sub :: "pyfloat \<Rightarrow> pyfloat \<Rightarrow> pyfloat" where
  "pf_sub a b = pf_add a (pf_neg b)"

fun pf_abs :: "pyfloat \<Rightarrow> pyfloat" where
  "pf_abs (Fin a) = Fin \<bar>a\<bar>"
| "pf_abs PosInf = PosInf"
| "pf_abs NegInf = PosInf"
| "pf_abs NaN = NaN"

text \<open>The sign of a float that is not a NaN: \<open>-1\<close>, \<open>0\<close> or \<open>1\<close>.\<close>

fun pf_sgn :: "pyfloat \<Rightarrow> real" where
  "pf_sgn (Fin a) = sgn a"
| "pf_sgn PosInf = 1"
| "pf_sgn NegInf = - 1"
| "pf_sgn NaN = 0"

definition pf_inf :: "real \<Rightarrow> pyfloat" where
  "pf_inf s = (if s = 0 then NaN else if 0 < s then PosInf else NegInf)"

fun pf_mul :: "pyfloat \<Rightarrow> pyfloat \<Rightarrow> pyfloat" where
  "pf_mul (Fin a) (Fin b) = Fin (a * b)"
| "pf_mul NaN _ = NaN"
| "pf_mul _ NaN = NaN"
| "pf_mul a b = pf_inf (pf_sgn a * pf_sgn b)"

text \<open>
  numpy's division of floats: a division by zero gives an infinity or a NaN (with a
  warning), never \<^verbatim>\<open>ZeroDivisionError\<close>.
\<close>

fun pf_div :: "pyfloat \<Rightarrow> pyfloat \<Rightarrow> pyfloat" where
  "pf_div (Fin a) (Fin b) = (if b = 0 then pf_inf (sgn a) else Fin (a / b))"
| "pf_div NaN _ = NaN"
| "pf_div _ NaN = NaN"
| "pf_div (Fin a) _ = Fin 0"
| "pf_div a (Fin b) = pf_inf (pf_sgn a * (if b < 0 then - 1 else 1))"
| "pf_div _ _ = NaN"

fun pf_isfinite :: "pyfloat \<Rightarrow> bool" where
  "pf_isfinite (Fin _) = True"
| "pf_isfinite _ = False"

subsection \<open>The built-in conversion \<^verbatim>\<open>float(x)\<close>\<close>

text \<open>
  On a string, \<^verbatim>\<open>float\<close> strips the surrounding whitespace and reads, without
  regard to case, an optional sign followed by \<^verbatim>\<open>inf\<close>, \<^verbatim>\<open>infinity\<close>,
  \<^verbatim>\<open>nan\<close> or a decimal number with an optional fraction and exponent, where single
  underscores may separate digits. Any other string raises \<^verbatim>\<open>ValueError\<close>. Only
  ASCII whitespace and digits are modelled.
\<close>

definition py_isspace :: "char \<Rightarrow> bool" where
  "py_isspace c \<longleftrightarrow> (of_char c :: nat) \<in> {9, 10, 11, 12, 13, 28, 29, 30, 31, 32}"

definition py_strip :: "string \<Rightarrow> string" where
  "py_strip s = rev (dropWhile py_isspace (rev (dropWhile py_isspace s)))"

definition py_lower_char :: "char \<Rightarrow> char" where
  "py_lower_char c =
     (let n = (of_char c :: nat) in if 65 \<le> n \<and> n \<le> 90 then char_of (n + 32) else c)"

definition is_digit :: "char \<Rightarrow> bool" where
  "is_digit c \<longleftrightarrow> (let n = (of_char c :: nat) in 48 \<le> n \<and> n \<le> 57)"

definition digit_val :: "char \<Rightarrow> nat" where
  "digit_val c = of_char c - 48"

fun digitpart :: "string \<Rightarrow> bool" where
  "digitpart [] = False"
| "digitpart [c] = is_digit c"
| "digitpart (c # d # cs) =
     (is_digit c \<and> (if d = CHR ''_'' then digitpart cs else digitpart (d # cs)))"

definition digits_val :: "string \<Rightarrow> nat" where
  "digits_val s = foldl (\<lambda>n c. 10 * n + digit_val c) 0 (filter is_digit s)"

definition parse_number :: "string \<Rightarrow> real option" where
  "parse_number s =
     (let ip = takeWhile (\<lambda>c. c \<noteq> CHR ''.'') s;
          rest = dropWhile (\<lambda>c. c \<noteq> CHR ''.'') s
      in if rest = [] then (if digitpart ip then Some (real (digits_val ip)) else None)
         else let fp = tl rest in
           if digitpart fp \<and> (ip = [] \<or> digitpart ip)
           then Some (real (digits_val ip)
                      + real (digits_val fp) / 10 ^ length (filter is_digit fp))
           else if fp = [] \<and> digitpart ip then Some (real (digits_val ip))
           else None)"

definition parse_exponent :: "string \<Rightarrow> (bool \<times> nat) option" where
  "parse_exponent s =
     (let neg = (s \<noteq> [] \<and> hd s = CHR ''-'');
          ds = (if s \<noteq> [] \<and> hd s \<in> {CHR ''+'', CHR ''-''} then tl s else s)
      in if digitpart ds then Some (neg, digits_val ds) else None)"

definition parse_floatnumber :: "string \<Rightarrow> real option" where
  "parse_floatnumber s =
     (let m = takeWhile (\<lambda>c. c \<noteq> CHR ''e'') s;
          rest = dropWhile (\<lambda>c. c \<noteq> CHR ''e'') s
      in case parse_number m of
           None \<Rightarrow> None
         | Some v \<Rightarrow>
             if rest = [] then Some v
             else (case parse_exponent (tl rest) of
                     None \<Rightarrow> None
                   | Some (neg, e) \<Rightarrow> Some (if neg then v / 10 ^ e else v * 10 ^ e)))"

definition str_to_float :: "string \<Rightarrow> pyfloat option" where
  "str_to_float s0 =
     (let s = map py_lower_char (py_strip s0);
          neg = (s \<noteq> [] \<and> hd s = CHR ''-'');
          body = (if s \<noteq> [] \<and> hd s \<in> {CHR ''+'', CHR ''-''} then tl s else s)
      in if body = ''inf'' \<or> body = ''infinity'' then Some (if neg then NegInf else PosInf)
         else if body = ''nan'' then Some NaN
         else map_option (\<lambda>v. Fin (if neg then - v else v)) (parse_floatnumber body))"

text \<open>
  \<^verbatim>\<open>float(x)\<close>: a number converts, a string is parsed (\<^verbatim>\<open>ValueError\<close> when it is
  not a number), \<^verbatim>\<open>None\<close>, a list and a table raise \<^verbatim>\<open>TypeError\<close>.
\<close>

fun py_float :: "'a pyobj \<Rightarrow> py_error + pyfloat" where
  "py_float (PyScalar (PyInt i)) = Inr (Fin (of_int i))"
| "py_float (PyScalar (PyFloat f)) = Inr f"
| "py_float (PyScalar (PyStr s)) =
     (case str_to_float s of None \<Rightarrow> Inl ValueError | Some f \<Rightarrow> Inr f)"
| "py_float PyNone = Inl TypeError"
| "py_float (PyList _) = Inl TypeError"
| "py_float (PyFrame _) = Inl TypeError"

text \<open>
  The test \<^verbatim>\<open>if x == 0\<close>. A table compares cell by cell, and the truth value of
  the resulting table raises \<^verbatim>\<open>ValueError\<close>.
\<close>

fun py_eq_zero :: "'a pyobj \<Rightarrow> py_error + bool" where
  "py_eq_zero (PyScalar (PyInt i)) = Inr (i = 0)"
| "py_eq_zero (PyScalar (PyFloat f)) = Inr (f = Fin 0)"
| "py_eq_zero (PyScalar (PyStr _)) = Inr False"
| "py_eq_zero PyNone = Inr False"
| "py_eq_zero (PyList _) = Inr False"
| "py_eq_zero (PyFrame _) = Inl ValueError"

section \<open>Scalar metrics\<close>

text \<open>
  \<^verbatim>\<open>
  def absolute_difference(ground_truth, simulation):
      try:
          return np.abs(float(simulation) - float(ground_truth))
      except TypeError:
          print('Input should be two scalar, numerics')
          return None
  \<close>
  The operands are evaluated left to right, so \<^verbatim>\<open>float(simulation)\<close> raises first.
  Only \<^verbatim>\<open>TypeError\<close> is caught.
\<close>

definition absolute_difference :: "'a pyobj \<Rightarrow> 'a pyobj \<Rightarrow> py_error + pyres" where
  "absolute_difference ground_truth simulation =
     (case (case py_float simulation of
              Inl e \<Rightarrow> Inl e
            | Inr s \<Rightarrow> (case py_float ground_truth of
                          Inl e \<Rightarrow> Inl e
                        | Inr g \<Rightarrow> Inr (RFloat (pf_abs (pf_sub s g)))))
      of Inl TypeError \<Rightarrow> Inr RNone
       | r \<Rightarrow> r)"

text \<open>
  \<^verbatim>\<open>
  def absolute_percentage_error(ground_truth, simulation):
      try:
          if ground_truth==0:
              return None
          return 100.*(np.abs(float(simulation) - float(ground_truth)))/float(ground_truth)
      except TypeError:
          print('Input should be two scalar, numerics')
          return None
  \<close>
\<close>

definition absolute_percentage_error :: "'a pyobj \<Rightarrow> 'a pyobj \<Rightarrow> py_error + pyres" where
  "absolute_percentage_error ground_truth simulation =
     (case (case py_eq_zero ground_truth of
              Inl e \<Rightarrow> Inl e
            | Inr True \<Rightarrow> Inr RNone
            | Inr False \<Rightarrow>
               (case py_float simulation of
                  Inl e \<Rightarrow> Inl e
                | Inr s \<Rightarrow> (case py_float ground_truth of
                              Inl e \<Rightarrow> Inl e
                            | Inr g \<Rightarrow>
                                Inr (RFloat (pf_div (pf_mul (Fin 100) (pf_abs (pf_sub s g))) g)))))
      of Inl TypeError \<Rightarrow> Inr RNone
       | r \<Rightarrow> r)"

section \<open>numpy arrays, histograms and the relative entropy\<close>

text \<open>
  The numerical libraries are not part of the repository. What the metrics use of them
  is modelled here from their documentation; the parts that are numerical recipes of
  their own, or that depend on the whole table machinery of pandas, are parameters:
  \<^item> \<open>bin_width\<close>: numpy's bin-width estimator for a named rule (\<^verbatim>\<open>'auto'\<close>,
    \<^verbatim>\<open>'doane'\<close>, ...) on a nonempty finite sample; its widths are not negative;
  \<^item> \<open>outer_merge\<close>: the columns \<^verbatim>\<open>value_gt\<close> and \<^verbatim>\<open>value_sim\<close>, as floats, of
    \<^verbatim>\<open>ground_truth.merge(simulation, on=<the columns of ground_truth other than
    'value'>, suffixes=('_gt', '_sim'), how='outer').fillna(0)\<close>;
  \<^item> \<open>join_values\<close>: the same two columns of \<^verbatim>\<open>join_dfs(ground_truth, simulation,
    join, fill_value).fillna(0)\<close>, whose body is pandas calls only;
  \<^item> \<open>r2_score\<close>: scikit-learn's coefficient of determination.
\<close>

record libs =
  bin_width :: "string \<Rightarrow> real list \<Rightarrow> real"
  outer_merge :: "cell frame \<Rightarrow> cell frame \<Rightarrow> py_error + (pyfloat \<times> pyfloat) list"
  join_values :: "cell frame \<Rightarrow> cell frame \<Rightarrow> string \<Rightarrow> cell \<Rightarrow> py_error + (pyfloat \<times> pyfloat) list"
  r2_score :: "pyfloat list \<Rightarrow> pyfloat list \<Rightarrow> py_error + pyfloat"

text \<open>Sequencing of steps that may raise: the first exception ends the computation.\<close>

definition chain :: "py_error + 'a \<Rightarrow> ('a \<Rightarrow> py_error + 'b) \<Rightarrow> py_error + 'b" where
  "chain r f = (case r of Inl e \<Rightarrow> Inl e | Inr v \<Rightarrow> f v)"

text \<open>
  An array: its number of dimensions and, when its dtype is numeric, its values in
  row-major order.
\<close>

datatype ndarray = NdArray (ndim: nat) (vals: "pyfloat list option")

fun cell_num :: "cell \<Rightarrow> pyfloat option" where
  "cell_num (PyInt i) = Some (Fin (of_int i))"
| "cell_num (PyFloat f) = Some f"
| "cell_num (PyStr _) = None"

definition cells_num :: "cell list \<Rightarrow> pyfloat list option" where
  "cells_num cs = (if \<forall>c \<in> set cs. cell_num c \<noteq> None then Some (map (the \<circ> cell_num) cs) else None)"

text \<open>\<^verbatim>\<open>np.array(x)\<close>; a table becomes the two-dimensional array of its rows.\<close>

fun np_array :: "cell pyobj \<Rightarrow> ndarray" where
  "np_array PyNone = NdArray 0 None"
| "np_array (PyScalar c) = NdArray 0 (map_option (\<lambda>v. [v]) (cell_num c))"
| "np_array (PyList cs) = NdArray 1 (cells_num cs)"
| "np_array (PyFrame f) = NdArray 2 (cells_num (concat (transpose (map snd (cols f)))))"

text \<open>\<^verbatim>\<open>len(x)\<close>\<close>

fun py_len :: "'a pyobj \<Rightarrow> py_error + nat" where
  "py_len PyNone = Inl TypeError"
| "py_len (PyScalar (PyStr s)) = Inr (length s)"
| "py_len (PyScalar _) = Inl TypeError"
| "py_len (PyList xs) = Inr (length xs)"
| "py_len (PyFrame f) = Inr (length (index f))"

text \<open>\<^verbatim>\<open>df['value']\<close> and \<^verbatim>\<open>df.value\<close>\<close>

definition frame_getitem :: "'a frame \<Rightarrow> string \<Rightarrow> py_error + 'a list" where
  "frame_getitem f c = (case map_of (cols f) c of None \<Rightarrow> Inl KeyError | Some v \<Rightarrow> Inr v)"

definition frame_getattr :: "'a frame \<Rightarrow> string \<Rightarrow> py_error + 'a list" where
  "frame_getattr f c = (case map_of (cols f) c of None \<Rightarrow> Inl AttributeError | Some v \<Rightarrow> Inr v)"

text \<open>
  \<^verbatim>\<open>
  def check_data_types(ground_truth, simulation):
      if isinstance(ground_truth, pd.DataFrame):
          ground_truth = ground_truth['value']
      if isinstance(simulation, pd.DataFrame):
          simulation = simulation['value']
      ground_truth = np.array(ground_truth)
      simulation = np.array(simulation)
      return ground_truth, simulation
  \<close>
\<close>

definition value_column :: "cell pyobj \<Rightarrow> py_error + cell pyobj" where
  "value_column x =
     (case x of PyFrame f \<Rightarrow> chain (frame_getitem f ''value'') (\<lambda>cs. Inr (PyList cs))
              | _ \<Rightarrow> Inr x)"

definition check_data_types :: "cell pyobj \<Rightarrow> cell pyobj \<Rightarrow> py_error + ndarray \<times> ndarray" where
  "check_data_types ground_truth simulation =
     chain (value_column ground_truth) (\<lambda>ground_truth.
     chain (value_column simulation) (\<lambda>simulation.
     Inr (np_array ground_truth, np_array simulation)))"

text \<open>
  \<^verbatim>\<open>a[np.isfinite(a)]\<close>: \<^verbatim>\<open>np.isfinite\<close> raises \<^verbatim>\<open>TypeError\<close> on an array whose
  dtype is not numeric; the selection by a mask is one-dimensional.
\<close>

definition isfinite_select :: "ndarray \<Rightarrow> py_error + ndarray" where
  "isfinite_select a =
     (case vals a of None \<Rightarrow> Inl TypeError
                   | Some xs \<Rightarrow> Inr (NdArray 1 (Some (filter pf_isfinite xs))))"

definition the_vals :: "ndarray \<Rightarrow> pyfloat list" where
  "the_vals a = (case vals a of None \<Rightarrow> [] | Some xs \<Rightarrow> xs)"

fun the_fin :: "pyfloat \<Rightarrow> real" where
  "the_fin (Fin r) = r"
| "the_fin _ = 0"

text \<open>
  The bin edges of \<^verbatim>\<open>np.histogram(a, bins=method)\<close> for a rule named by a string:
  equal-width bins between the least and the greatest value (\<open>(0, 1)\<close> for an empty
  sample, widened by a half on each side when the two coincide), as many as the
  estimated width asks for, and one bin when the estimate is zero.
\<close>

definition outer_edges :: "real list \<Rightarrow> real \<times> real" where
  "outer_edges a =
     (if a = [] then (0, 1)
      else let first_edge = Min (set a); last_edge = Max (set a)
           in if first_edge = last_edge then (first_edge - 1 / 2, last_edge + 1 / 2)
              else (first_edge, last_edge))"

definition np_linspace :: "real \<Rightarrow> real \<Rightarrow> nat \<Rightarrow> real list" where
  "np_linspace start stop num =
     map (\<lambda>i. start + real i * ((stop - start) / real (num - 1))) [0..<num]"

definition bin_edges :: "libs \<Rightarrow> string \<Rightarrow> real list \<Rightarrow> real list" where
  "bin_edges lib method a =
     (let (first_edge, last_edge) = outer_edges a;
          n_equal_bins =
            (if a = [] then 1
             else let width = bin_width lib method a
                  in if width \<noteq> 0 then nat \<lceil>(last_edge - first_edge) / width\<rceil> else 1)
      in np_linspace first_edge last_edge (n_equal_bins + 1))"

text \<open>
  \<^verbatim>\<open>np.histogram(a, bins=method)[1]\<close>: a sample of non-numeric dtype raises
  \<^verbatim>\<open>TypeError\<close>, one with a value that is not finite raises \<^verbatim>\<open>ValueError\<close>.
\<close>

definition np_histogram_edges :: "libs \<Rightarrow> string \<Rightarrow> ndarray \<Rightarrow> py_error + real list" where
  "np_histogram_edges lib method a =
     (case vals a of
        None \<Rightarrow> Inl TypeError
      | Some xs \<Rightarrow> if \<forall>x \<in> set xs. pf_isfinite x
                   then Inr (bin_edges lib method (map the_fin xs))
                   else Inl ValueError)"

text \<open>
  \<^verbatim>\<open>np.histogram(a, bins=edges)[0]\<close>: the number of values in each bin; every bin is
  half-open but the last, which contains its right edge.
\<close>

fun in_bin :: "bool \<Rightarrow> real \<Rightarrow> real \<Rightarrow> pyfloat \<Rightarrow> bool" where
  "in_bin is_last lo hi (Fin x) = (lo \<le> x \<and> (x < hi \<or> is_last \<and> x = hi))"
| "in_bin is_last lo hi _ = False"

fun histogram_counts :: "real list \<Rightarrow> pyfloat list \<Rightarrow> nat list" where
  "histogram_counts (lo # hi # es) a =
     length (filter (in_bin (es = []) lo hi) a) # histogram_counts (hi # es) a"
| "histogram_counts _ a = []"

definition np_histogram :: "real list \<Rightarrow> ndarray \<Rightarrow> py_error + pyfloat list" where
  "np_histogram edges a =
     (case vals a of None \<Rightarrow> Inl TypeError
                   | Some xs \<Rightarrow> Inr (map (\<lambda>n. Fin (real n)) (histogram_counts edges xs)))"

text \<open>
  \<^verbatim>\<open>
  def get_hist_bins(ground_truth, simulation, method='auto'):
      all_data = np.concatenate([ground_truth, simulation])
      _, bins = np.histogram(all_data, bins=method)
      return (bins)
  \<close>
  \<^verbatim>\<open>np.concatenate\<close> raises \<^verbatim>\<open>ValueError\<close> on a zero-dimensional array and on
  arrays of different dimensions.
\<close>

definition np_concatenate :: "ndarray \<Rightarrow> ndarray \<Rightarrow> py_error + ndarray" where
  "np_concatenate a b =
     (if ndim a = 0 \<or> ndim b = 0 \<or> ndim a \<noteq> ndim b then Inl ValueError
      else Inr (NdArray (ndim a)
                  (case (vals a, vals b) of (Some xs, Some ys) \<Rightarrow> Some (xs @ ys) | _ \<Rightarrow> None)))"

definition get_hist_bins :: "libs \<Rightarrow> ndarray \<Rightarrow> ndarray \<Rightarrow> string \<Rightarrow> py_error + real list" where
  "get_hist_bins lib ground_truth simulation method =
     chain (np_concatenate ground_truth simulation) (\<lambda>all_data.
     np_histogram_edges lib method all_data)"

text \<open>
  \<^verbatim>\<open>scipy.stats.entropy(pk, qk, base)\<close>: both vectors are normalised to sum 1, and the
  result is the sum of \<^verbatim>\<open>rel_entr(pk, qk)\<close>, divided by \<^verbatim>\<open>log(base)\<close> when a base
  is given. It is called on vectors of equal length only.
\<close>

definition np_sum :: "pyfloat list \<Rightarrow> pyfloat" where
  "np_sum v = foldl pf_add (Fin 0) v"

definition np_divide :: "pyfloat list \<Rightarrow> pyfloat \<Rightarrow> pyfloat list" where
  "np_divide v d = map (\<lambda>x. pf_div x d) v"

fun pf_log :: "pyfloat \<Rightarrow> pyfloat" where
  "pf_log (Fin a) = (if 0 < a then Fin (ln a) else if a = 0 then NegInf else NaN)"
| "pf_log PosInf = PosInf"
| "pf_log NegInf = NaN"
| "pf_log NaN = NaN"

fun rel_entr :: "pyfloat \<Rightarrow> pyfloat \<Rightarrow> pyfloat" where
  "rel_entr NaN _ = NaN"
| "rel_entr _ NaN = NaN"
| "rel_entr x y =
     (if 0 < pf_sgn x \<and> 0 < pf_sgn y then pf_mul x (pf_log (pf_div x y))
      else if x = Fin 0 \<and> 0 \<le> pf_sgn y then Fin 0
      else PosInf)"

definition entropy :: "pyfloat list \<Rightarrow> pyfloat list \<Rightarrow> real option \<Rightarrow> pyfloat" where
  "entropy pk qk base =
     (let pk = np_divide pk (np_sum pk);
          qk = np_divide qk (np_sum qk);
          S = np_sum (map2 rel_entr pk qk)
      in case base of None \<Rightarrow> S | Some b \<Rightarrow> pf_div S (pf_log (Fin b)))"

section \<open>Divergence metrics\<close>

text \<open>
  \<^verbatim>\<open>
  def kl_divergence(ground_truth, simulation, discrete=False):
      if simulation is None:
          return None
      if not discrete:
          ground_truth, simulation = check_data_types(ground_truth, simulation)
          bins = get_hist_bins(ground_truth, simulation,method='doane')
          ground_truth = np.histogram(ground_truth, bins=bins)[0]
          simulation = np.histogram(simulation, bins=bins)[0]
      else:
          df = ground_truth.merge(simulation,
                                  on=[c for c in ground_truth.columns if c != 'value'],
                                  suffixes=('_gt', '_sim'),
                                  how='outer').fillna(0)
          ground_truth = df['value_gt'].values.astype(float)
          simulation = df['value_sim'].values.astype(float)
          ground_truth = ground_truth / ground_truth.sum()
          simulation = simulation / simulation.sum()
      if len(ground_truth) == len(simulation):
          return entropy(ground_truth, simulation)
      else:
          print('Two distributions must have same length')
          return None
  \<close>
  In the discrete branch, \<^verbatim>\<open>ground_truth.merge\<close> raises \<^verbatim>\<open>AttributeError\<close> when
  the ground truth is not a table, and pandas raises \<^verbatim>\<open>TypeError\<close> when the
  simulation is not one.
\<close>

definition merge_outer :: "libs \<Rightarrow> cell pyobj \<Rightarrow> cell pyobj \<Rightarrow> py_error + (pyfloat \<times> pyfloat) list" where
  "merge_outer lib ground_truth simulation =
     (case ground_truth of
        PyFrame g \<Rightarrow> (case simulation of
                       PyFrame s \<Rightarrow> outer_merge lib g s
                     | _ \<Rightarrow> Inl TypeError)
      | _ \<Rightarrow> Inl AttributeError)"

definition kl_divergence :: "libs \<Rightarrow> cell pyobj \<Rightarrow> cell pyobj \<Rightarrow> bool \<Rightarrow> py_error + pyres" where
  "kl_divergence lib ground_truth simulation discrete =
     (if simulation = PyNone then Inr RNone
      else chain
        (if \<not> discrete then
           chain (check_data_types ground_truth simulation) (\<lambda>(ground_truth, simulation).
           chain (get_hist_bins lib ground_truth simulation ''doane'') (\<lambda>bins.
           chain (np_histogram bins ground_truth) (\<lambda>ground_truth.
           chain (np_histogram bins simulation) (\<lambda>simulation.
           Inr (ground_truth, simulation)))))
         else
           chain (merge_outer lib ground_truth simulation) (\<lambda>df.
           let ground_truth = map fst df;
               simulation = map snd df;
               ground_truth = np_divide ground_truth (np_sum ground_truth);
               simulation = np_divide simulation (np_sum simulation)
           in Inr (ground_truth, simulation)))
        (\<lambda>(ground_truth, simulation).
           if length ground_truth = length simulation
           then Inr (RFloat (entropy ground_truth simulation None))
           else Inr RNone))"

text \<open>
  \<^verbatim>\<open>
  def kl_divergence_smoothed(ground_truth, simulation, alpha=0.01, discrete=False):
      if not discrete:
          ground_truth, simulation = check_data_types(ground_truth, simulation)
          bins = get_hist_bins(ground_truth, simulation)
          ground_truth = np.histogram(ground_truth, bins=bins)[0]
          simulation = np.histogram(simulation, bins=bins)[0]
          smoothed_simulation = (1 - alpha) * simulation + alpha * (np.ones(simulation.shape))
      else:
          df = ground_truth.merge(simulation,
                                  on=[c for c in ground_truth.columns if c != 'value'],
                                  suffixes=('_gt', '_sim'),
                                  how='outer').fillna(0)
          ground_truth = df['value_gt'].values.astype(float)
          simulation = df['value_sim'].values.astype(float)
          ground_truth = ground_truth / ground_truth.sum()
          simulation = simulation / simulation.sum()
      if len(ground_truth) == len(simulation):
          return entropy(ground_truth, smoothed_simulation)
      else:
          print('Two distributions must have same length')
          return None
  \<close>
  The local \<^verbatim>\<open>smoothed_simulation\<close> is bound in the first branch only: it is an
  option here, and reading it unbound raises \<^verbatim>\<open>UnboundLocalError\<close>. The call of
  \<^verbatim>\<open>get_hist_bins\<close> leaves the method to its default, \<^verbatim>\<open>'auto'\<close>.
\<close>

definition kl_divergence_smoothed ::
  "libs \<Rightarrow> cell pyobj \<Rightarrow> cell pyobj \<Rightarrow> real \<Rightarrow> bool \<Rightarrow> py_error + pyres" where
  "kl_divergence_smoothed lib ground_truth simulation alpha discrete =
     chain
       (if \<not> discrete then
          chain (check_data_types ground_truth simulation) (\<lambda>(ground_truth, simulation).
          chain (get_hist_bins lib ground_truth simulation ''auto'') (\<lambda>bins.
          chain (np_histogram bins ground_truth) (\<lambda>ground_truth.
          chain (np_histogram bins simulation) (\<lambda>simulation.
          let smoothed_simulation =
                map (\<lambda>x. pf_add (pf_mul (Fin (1 - alpha)) x) (pf_mul (Fin alpha) (Fin 1)))
                  simulation
          in Inr (ground_truth, simulation, Some smoothed_simulation)))))
        else
          chain (merge_outer lib ground_truth simulation) (\<lambda>df.
          let ground_truth = map fst df;
              simulation = map snd df;
              ground_truth = np_divide ground_truth (np_sum ground_truth);
              simulation = np_divide simulation (np_sum simulation)
          in Inr (ground_truth, simulation, None)))
       (\<lambda>(ground_truth, simulation, smoothed_simulation).
          if length ground_truth = length simulation
          then (case smoothed_simulation of
                  None \<Rightarrow> Inl UnboundLocalError
                | Some smoothed_simulation \<Rightarrow>
                    Inr (RFloat (entropy ground_truth smoothed_simulation None)))
          else Inr RNone)"

text \<open>
  \<^verbatim>\<open>
  def js_divergence(ground_truth, simulation, discrete=False, base=2.0):
      if simulation is None or len(simulation) == 0 or ground_truth is None or len(ground_truth) == 0:
          return None
      if not discrete:
          ground_truth, simulation = check_data_types(ground_truth, simulation)
          try:
              ground_truth = ground_truth[np.isfinite(ground_truth)]
              simulation = simulation[np.isfinite(simulation)]
          except TypeError:
              return None
          bins = get_hist_bins(ground_truth, simulation,method='doane')
          ground_truth = np.histogram(ground_truth, bins=bins)[0].astype(float)
          simulation = np.histogram(simulation, bins=bins)[0].astype(float)
      else:
          try:
              ground_truth = ground_truth[np.isfinite(ground_truth.value)]
              simulation = simulation[np.isfinite(simulation.value)]
          except TypeError:
              return None
          df = ground_truth.merge(simulation,
                                  on=[c for c in ground_truth.columns if c != 'value'],
                                  suffixes=('_gt', '_sim'),
                                  how='outer').fillna(0)
          ground_truth = df['value_gt'].values.astype(float)
          simulation = df['value_sim'].values.astype(float)
      ground_truth = ground_truth / ground_truth.sum()
      simulation = simulation / simulation.sum()
      if len(ground_truth) == len(simulation):
          m = 1. / 2 * (ground_truth + simulation)
          return entropy(ground_truth, m, base=base) / 2. + entropy(simulation, m, base=base) / 2.
      else:
          print('Two distributions must have same length')
          return None
  \<close>
  The two early returns inside \<^verbatim>\<open>try\<close> are the value \<open>None\<close> of the first step
  below; an exception other than \<^verbatim>\<open>TypeError\<close> passes through. The statements
  after the two branches are \<open>js_divergence_tail\<close>.
\<close>

text \<open>\<^verbatim>\<open>df[mask]\<close>: the rows of a table selected by a boolean mask.\<close>

definition select_mask :: "bool list \<Rightarrow> 'a list \<Rightarrow> 'a list" where
  "select_mask keep xs = map snd (filter fst (zip keep xs))"

definition select_rows :: "bool list \<Rightarrow> 'a frame \<Rightarrow> 'a frame" where
  "select_rows keep f =
     f\<lparr>cols := map (\<lambda>(c, v). (c, select_mask keep v)) (cols f),
       index := select_mask keep (index f)\<rparr>"

text \<open>\<^verbatim>\<open>x[np.isfinite(x.value)]\<close>\<close>

definition finite_rows :: "cell pyobj \<Rightarrow> py_error + cell frame" where
  "finite_rows x =
     (case x of
        PyFrame f \<Rightarrow>
          chain (frame_getattr f ''value'') (\<lambda>v.
          case cells_num v of
            None \<Rightarrow> Inl TypeError
          | Some xs \<Rightarrow> Inr (select_rows (map pf_isfinite xs) f))
      | _ \<Rightarrow> Inl AttributeError)"

definition js_divergence_tail :: "pyfloat list \<Rightarrow> pyfloat list \<Rightarrow> real \<Rightarrow> pyres" where
  "js_divergence_tail ground_truth simulation base =
     (let ground_truth = np_divide ground_truth (np_sum ground_truth);
          simulation = np_divide simulation (np_sum simulation)
      in if length ground_truth = length simulation
         then let m = map2 (\<lambda>g s. pf_mul (Fin (1 / 2)) (pf_add g s)) ground_truth simulation
              in RFloat (pf_add (pf_div (entropy ground_truth m (Some base)) (Fin 2))
                                (pf_div (entropy simulation m (Some base)) (Fin 2)))
         else RNone)"

definition js_divergence :: "libs \<Rightarrow> cell pyobj \<Rightarrow> cell pyobj \<Rightarrow> bool \<Rightarrow> real \<Rightarrow> py_error + pyres" where
  "js_divergence lib ground_truth simulation discrete base =
     (if simulation = PyNone then Inr RNone else
      chain (py_len simulation) (\<lambda>len_simulation.
      if len_simulation = 0 then Inr RNone else
      if ground_truth = PyNone then Inr RNone else
      chain (py_len ground_truth) (\<lambda>len_ground_truth.
      if len_ground_truth = 0 then Inr RNone else
      chain
        (if \<not> discrete then
           chain (check_data_types ground_truth simulation) (\<lambda>(ground_truth, simulation).
           case chain (isfinite_select ground_truth) (\<lambda>ground_truth.
                chain (isfinite_select simulation) (\<lambda>simulation.
                Inr (ground_truth, simulation)))
           of Inl TypeError \<Rightarrow> Inr None
            | Inl e \<Rightarrow> Inl e
            | Inr (ground_truth, simulation) \<Rightarrow>
                chain (get_hist_bins lib ground_truth simulation ''doane'') (\<lambda>bins.
                chain (np_histogram bins ground_truth) (\<lambda>ground_truth.
                chain (np_histogram bins simulation) (\<lambda>simulation.
                Inr (Some (ground_truth, simulation))))))
         else
           case chain (finite_rows ground_truth) (\<lambda>ground_truth.
                chain (finite_rows simulation) (\<lambda>simulation.
                Inr (ground_truth, simulation)))
           of Inl TypeError \<Rightarrow> Inr None
            | Inl e \<Rightarrow> Inl e
            | Inr (ground_truth, simulation) \<Rightarrow>
                chain (outer_merge lib ground_truth simulation) (\<lambda>df.
                Inr (Some (map fst df, map snd df))))
        (\<lambda>r. case r of
           None \<Rightarrow> Inr RNone
         | Some (ground_truth, simulation) \<Rightarrow>
             Inr (js_divergence_tail ground_truth simulation base)))))"

section \<open>Fit metrics\<close>

text \<open>
  \<^verbatim>\<open>np.nan_to_num\<close> replaces a NaN by 0 and an infinity by the largest finite double
  of its sign, in an array of floats; any other array is returned as it is.
\<close>

definition float_max :: real where
  "float_max = (2 - 1 / 2 ^ 52) * 2 ^ 1023"

fun nan_to_num :: "pyfloat \<Rightarrow> pyfloat" where
  "nan_to_num (Fin a) = Fin a"
| "nan_to_num NaN = Fin 0"
| "nan_to_num PosInf = Fin float_max"
| "nan_to_num NegInf = Fin (- float_max)"

definition np_nan_to_num :: "ndarray \<Rightarrow> ndarray" where
  "np_nan_to_num a = NdArray (ndim a) (map_option (map nan_to_num) (vals a))"

text \<open>
  The difference of two one-dimensional arrays: element by element when the lengths
  agree, an array of length 1 is broadcast, other lengths raise \<^verbatim>\<open>ValueError\<close>.
\<close>

definition np_subtract :: "pyfloat list \<Rightarrow> pyfloat list \<Rightarrow> py_error + pyfloat list" where
  "np_subtract a b =
     (if length a = length b then Inr (map2 pf_sub a b)
      else if length a = 1 then Inr (map (pf_sub (hd a)) b)
      else if length b = 1 then Inr (map (\<lambda>x. pf_sub x (hd b)) a)
      else Inl ValueError)"

definition np_mean :: "pyfloat list \<Rightarrow> pyfloat" where
  "np_mean v = pf_div (np_sum v) (Fin (real (length v)))"

fun pf_sqrt :: "pyfloat \<Rightarrow> pyfloat" where
  "pf_sqrt (Fin a) = (if 0 \<le> a then Fin (sqrt a) else NaN)"
| "pf_sqrt PosInf = PosInf"
| "pf_sqrt NegInf = NaN"
| "pf_sqrt NaN = NaN"

text \<open>
  \<^verbatim>\<open>
  def r2(ground_truth, simulation, join='inner', fill_value=0):
      """
      R-squared value between ground truth and simulation
      ...
      """
      if simulation is None or ground_truth is None:
          return None
      if len(simulation) == 0 or len(ground_truth) == 0:
          return None
      if type(ground_truth) is list:
          ground_truth = np.nan_to_num(ground_truth)
          simulation = np.nan_to_num(simulation)
          ground_truth = ground_truth[np.isfinite(ground_truth)]
          simulation = simulation[np.isfinite(simulation)]
          return np.sqrt(((np.asarray(ground_truth) - np.asarray(simulation)) ** 2).mean())
      ground_truth = ground_truth[np.isfinite(ground_truth.value)]
      simulation = simulation[np.isfinite(simulation.value)]
      df = join_dfs(ground_truth,simulation,join=join,fill_value=fill_value).fillna(0)
      if df.empty or len(df.index) <= 1:
          return None
      else:
          return r2_score(df["value_gt"],df["value_sim"])
  \<close>
  The five statements under \<^verbatim>\<open>if type(ground_truth) is list\<close> are indented by a
  mixture of tabs and spaces in the source; they are one block when a tab advances to
  the next multiple of eight columns, and are read so.
\<close>

definition r2 :: "libs \<Rightarrow> cell pyobj \<Rightarrow> cell pyobj \<Rightarrow> string \<Rightarrow> cell \<Rightarrow> py_error + pyres" where
  "r2 lib ground_truth simulation join fill_value =
     (if simulation = PyNone \<or> ground_truth = PyNone then Inr RNone else
      chain (py_len simulation) (\<lambda>len_simulation.
      if len_simulation = 0 then Inr RNone else
      chain (py_len ground_truth) (\<lambda>len_ground_truth.
      if len_ground_truth = 0 then Inr RNone else
      (case ground_truth of
         PyList _ \<Rightarrow>
           let ground_truth = np_nan_to_num (np_array ground_truth);
               simulation = np_nan_to_num (np_array simulation)
           in chain (isfinite_select ground_truth) (\<lambda>ground_truth.
              chain (isfinite_select simulation) (\<lambda>simulation.
              chain (np_subtract (the_vals ground_truth) (the_vals simulation)) (\<lambda>d.
              Inr (RFloat (pf_sqrt (np_mean (map (\<lambda>x. pf_mul x x) d)))))))
       | _ \<Rightarrow>
           chain (finite_rows ground_truth) (\<lambda>ground_truth.
           chain (finite_rows simulation) (\<lambda>simulation.
           chain (join_values lib ground_truth simulation join fill_value) (\<lambda>df.
           if length df \<le> 1 then Inr RNone
           else chain (r2_score lib (map fst df) (map snd df)) (\<lambda>v. Inr (RFloat v)))))))))"

section \<open>Rank-biased overlap\<close>

text \<open>
  \<^verbatim>\<open>
  def rbo_score(ground_truth, simulation, p=0.95):
      if simulation is None:
          return None
      if len(ground_truth.columns) == 2:
          entity = [c for c in ground_truth.columns if c != 'value'][0]
          ground_truth = ground_truth[entity].tolist()
          simulation = simulation[entity].tolist()
      else:
          ground_truth = ground_truth.index.tolist()
          simulation = simulation.index.tolist()
      sl, ll = sorted([(len(ground_truth), ground_truth), (len(simulation), simulation)])
      s, S = sl
      l, L = ll
      if s == 0: return 0
      x_d = {}
      rbo_score = 0.0
      for i in range(1, s + 1):
          x = L[:i]
          y = S[:i]
          x_d[i] = len(set(x).intersection(set(y)))
      for i in range(1,s+1):
          rbo_score += (float(x_d[i])/float(i)) * pow(p, (i-1))
      rbo_score = rbo_score * (1 - p)
      return rbo_score
  \<close>
  The two arguments are tables: \<^verbatim>\<open>ground_truth.columns\<close> raises
  \<^verbatim>\<open>AttributeError\<close> on anything else. \<^verbatim>\<open>sorted\<close> compares the two pairs by
  length first and by the lists, lexicographically, when the lengths agree; it keeps the
  order of its argument unless the second pair is smaller. The dictionary \<^verbatim>\<open>x_d\<close>
  filled by the first loop is the function \<open>rbo_overlaps L S\<close>; the second loop is
  the fold \<open>rbo_accumulate\<close>.
\<close>

definition rbo_overlaps :: "'a list \<Rightarrow> 'a list \<Rightarrow> nat \<Rightarrow> nat" where
  "rbo_overlaps L S i = card (set (take i L) \<inter> set (take i S))"

definition rbo_accumulate :: "(nat \<Rightarrow> nat) \<Rightarrow> real \<Rightarrow> nat \<Rightarrow> real" where
  "rbo_accumulate x_d p s =
     foldl (\<lambda>rbo_score i. rbo_score + (real (x_d i) / real i) * p ^ (i - 1)) 0 [1..<s + 1]"

definition tuple_less :: "nat \<times> 'a::linorder list \<Rightarrow> nat \<times> 'a list \<Rightarrow> bool" where
  "tuple_less a b \<longleftrightarrow> fst a < fst b \<or> fst a = fst b \<and> snd a < snd b"

definition py_sorted2 ::
  "nat \<times> 'a::linorder list \<Rightarrow> nat \<times> 'a list \<Rightarrow> (nat \<times> 'a list) \<times> (nat \<times> 'a list)" where
  "py_sorted2 a b = (if tuple_less b a then (b, a) else (a, b))"

definition rbo_score :: "'a::linorder pyobj \<Rightarrow> 'a pyobj \<Rightarrow> real \<Rightarrow> py_error + pyres" where
  "rbo_score ground_truth simulation p =
     (if simulation = PyNone then Inr RNone else
      chain
        (case ground_truth of
           PyFrame g \<Rightarrow>
             if length (columns g) = 2 then
               (case filter (\<lambda>c. c \<noteq> ''value'') (columns g) of
                  [] \<Rightarrow> Inl IndexError
                | entity # _ \<Rightarrow>
                    chain (frame_getitem g entity) (\<lambda>ground_truth.
                    chain (case simulation of
                             PyFrame s \<Rightarrow> frame_getitem s entity
                           | _ \<Rightarrow> Inl TypeError) (\<lambda>simulation.
                    Inr (ground_truth, simulation))))
             else
               (case simulation of
                  PyFrame s \<Rightarrow> Inr (index g, index s)
                | _ \<Rightarrow> Inl AttributeError)
         | _ \<Rightarrow> Inl AttributeError)
        (\<lambda>(ground_truth, simulation).
           let (sl, ll) = py_sorted2 (length ground_truth, ground_truth)
                                     (length simulation, simulation);
               (s, S) = sl;
               (l, L) = ll
           in if s = 0 then Inr (RInt 0)
              else
                let x_d = rbo_overlaps L S;
                    rbo_score = rbo_accumulate x_d p s;
                    rbo_score = rbo_score * (1 - p)
                in Inr (RFloat (Fin rbo_score))))"

section \<open>Measurement orchestration\<close>

text \<open>
  The measurement classes, the loader and the metrics engine are imported by
  \<^verbatim>\<open>run.py\<close> from modules that are not part of the sources; they are parameters.
  A measurement object is what its \<^verbatim>\<open>run\<close> method does. Datasets, metadata,
  configurations of one measurement type, measurement results and logs are opaque.
\<close>

datatype measurement_class =
  SocialActivityMeasurements | InformationCascadeMeasurements | SocialStructureMeasurements
  | CrossPlatformMeasurements | MultiPlatformMeasurements | RecurrenceMeasurements
  | PersistentGroupsMeasurements

text \<open>The value of \<^verbatim>\<open>dataset_subset\<close>: the empty list it starts as, or a dataset.\<close>

datatype 'd subset = EmptyList | Data 'd

record kwargs =
  verbose :: bool
  save :: bool
  save_directory :: string
  save_format :: string

text \<open>
  A log entry is either the dictionary \<^verbatim>\<open>{'status': ..., 'error': ...}\<close> written by
  \<^verbatim>\<open>run_measurements\<close>, or the logs a measurement object returned.
\<close>

datatype 'l log_entry = Status string py_error | Logs 'l

type_synonym ('r, 'l) platform_out = "(string \<times> 'r option) list \<times> (string \<times> 'l log_entry) list"

type_synonym 'r results = "(string \<times> (string \<times> 'r option) list) list"

type_synonym 'l logs = "(string \<times> (string \<times> 'l log_entry) list) list"

type_synonym 'c configuration = "(string \<times> (string \<times> 'c) list) list"

record ('d, 'c, 'm, 'r, 'l, 'x, 'y) collaborators =
  select_platform :: "'d \<Rightarrow> string \<Rightarrow> py_error + 'd"
  subset_for_test :: "'d subset \<Rightarrow> py_error + 'd subset"
  construct :: "measurement_class \<Rightarrow> 'd subset \<Rightarrow> string option \<Rightarrow> 'c \<Rightarrow> 'm
                \<Rightarrow> py_error + (kwargs \<Rightarrow> py_error + 'r \<times> 'l)"
  load_measurements_str :: "py_error + 'r results \<times> 'l logs"
  run_metrics :: "'r results \<Rightarrow> 'r results \<Rightarrow> 'c configuration \<Rightarrow> bool \<Rightarrow> string
                  \<Rightarrow> py_error + 'x \<times> 'y"

text \<open>
  The local variables of \<^verbatim>\<open>run_measurements\<close> that live across iterations; \<open>None\<close>
  is a name not yet bound.
\<close>

record ('r, 'l) locals =
  Measurement :: "measurement_class option"
  measurement_results :: "'r option option"
  measurement_logs :: "'l log_entry option"

text \<open>
  The first \<^verbatim>\<open>try\<close> of the platform loop:
  \<^verbatim>\<open>
        dataset_subset = []
        try:
            if platform=='multi_platform':
                dataset_subset = dataset
            else:
                dataset_subset = dataset[dataset['platform']==platform]
            if test:
                dataset_subset = subset_for_test(dataset_subset)
        except Exception as error:
                measurement_logs    = {
                    'status': 'Failed to subset ' + platform,
                    'error': error
                    }
  \<close>
  \<open>subset_dataset\<close> gives the value of \<^verbatim>\<open>dataset_subset\<close> after the statement and
  the exception caught, if any; \<open>except_subsetting\<close> is the handler, which assigns to
  the local \<^verbatim>\<open>measurement_logs\<close>.
\<close>

definition subset_dataset ::
  "('d, 'c, 'm, 'r, 'l, 'x, 'y) collaborators \<Rightarrow> 'd \<Rightarrow> string \<Rightarrow> bool \<Rightarrow> 'd subset \<times> py_error option" where
  "subset_dataset env dataset platform test =
     (let dataset_subset = EmptyList
      in case (if platform = ''multi_platform'' then Inr dataset
               else select_platform env dataset platform)
         of Inl error \<Rightarrow> (dataset_subset, Some error)
          | Inr d \<Rightarrow>
              let dataset_subset = Data d
              in if test then (case subset_for_test env dataset_subset of
                                 Inl error \<Rightarrow> (dataset_subset, Some error)
                               | Inr dataset_subset \<Rightarrow> (dataset_subset, None))
                 else (dataset_subset, None))"

definition except_subsetting ::
  "string \<Rightarrow> py_error option \<Rightarrow> ('r, 'l) locals \<Rightarrow> ('r, 'l) locals" where
  "except_subsetting platform failure vars =
     (case failure of
        None \<Rightarrow> vars
      | Some error \<Rightarrow>
          vars\<lparr>measurement_logs := Some (Status (''Failed to subset '' @ platform) error)\<rparr>)"

text \<open>
  The chain of comparisons that binds \<^verbatim>\<open>Measurement\<close>; it has no final
  \<^verbatim>\<open>else\<close>, so another name binds nothing.
\<close>

definition resolve :: "string \<Rightarrow> measurement_class option" where
  "resolve measurement_type =
     (if measurement_type = ''social_activity'' then Some SocialActivityMeasurements
      else if measurement_type = ''information_cascades'' then Some InformationCascadeMeasurements
      else if measurement_type = ''social_structure'' then Some SocialStructureMeasurements
      else if measurement_type = ''cross_platform'' then Some CrossPlatformMeasurements
      else if measurement_type = ''multi_platform'' then Some MultiPlatformMeasurements
      else if measurement_type = ''recurrence'' then Some RecurrenceMeasurements
      else if measurement_type = ''persistent_groups'' then Some PersistentGroupsMeasurements
      else None)"

text \<open>
  The body of the loop over the measurement types, after the chain of comparisons:
  \<^verbatim>\<open>
            configuration_subset = configuration[platform][measurement_type]
            try:
                if platform=='multi_platform':
                    measurement = Measurement(dataset_subset,
                                              configuration_subset, metadata)
                else:
                    measurement = Measurement(dataset_subset,platform,
                                              configuration_subset, metadata)
                try:
                    kwargs = {'verbose':verbose, 'save':save,
                        'save_directory':save_directory,
                        'save_format':save_format}
                    measurement_results, measurement_logs = measurement.run(**kwargs)
                except Exception as error:
                    measurement_logs    = {
                        'status': 'Measurements object failed to run.',
                        'error': error
                        }
                    measurement_results = None
            except Exception as error:
                measurement_logs    = {
                    'status': 'Failed to instantiate measurements object',
                    'error': error
                    }
                measurement_results = None
            platform_results.update({measurement_type:measurement_results})
            platform_logs.update({measurement_type:measurement_logs})
        results.update({platform:platform_results})
        logs.update({platform:platform_logs})
    return results, logs
  \<close>
  \<open>attempt\<close> is the two nested \<^verbatim>\<open>try\<close> statements, for the class bound to
  \<^verbatim>\<open>Measurement\<close> (reading the name unbound raises \<^verbatim>\<open>UnboundLocalError\<close> inside
  the outer \<^verbatim>\<open>try\<close>): the values given to \<^verbatim>\<open>measurement_results\<close> and
  \<^verbatim>\<open>measurement_logs\<close>.
\<close>

definition attempt ::
  "('d, 'c, 'm, 'r, 'l, 'x, 'y) collaborators \<Rightarrow> 'd subset \<Rightarrow> string \<Rightarrow> 'm \<Rightarrow> kwargs
   \<Rightarrow> measurement_class option \<Rightarrow> 'c \<Rightarrow> 'r option \<times> 'l log_entry" where
  "attempt env dataset_subset platform metadata kw Measurement' configuration_subset =
     (case (case Measurement' of
              None \<Rightarrow> Inl UnboundLocalError
            | Some M \<Rightarrow>
                if platform = ''multi_platform''
                then construct env M dataset_subset None configuration_subset metadata
                else construct env M dataset_subset (Some platform) configuration_subset metadata)
      of Inl error \<Rightarrow> (None, Status ''Failed to instantiate measurements object'' error)
       | Inr measurement \<Rightarrow>
           (case measurement kw of
              Inl error \<Rightarrow> (None, Status ''Measurements object failed to run.'' error)
            | Inr (results', logs') \<Rightarrow> (Some results', Logs logs')))"

text \<open>One iteration of the loop over \<^verbatim>\<open>configuration[platform].keys()\<close>.\<close>

definition measurement_type_step ::
  "('d, 'c, 'm, 'r, 'l, 'x, 'y) collaborators \<Rightarrow> 'd subset \<Rightarrow> string \<Rightarrow> 'm \<Rightarrow> kwargs
   \<Rightarrow> string \<times> 'c \<Rightarrow> ('r, 'l) locals \<times> ('r, 'l) platform_out
   \<Rightarrow> ('r, 'l) locals \<times> ('r, 'l) platform_out" where
  "measurement_type_step env dataset_subset platform metadata kw entry st =
     (let (measurement_type, configuration_subset) = entry;
          (vars, platform_results, platform_logs) = st;
          vars = (case resolve measurement_type of
                    Some M \<Rightarrow> vars\<lparr>Measurement := Some M\<rparr>
                  | None \<Rightarrow> vars);
          (res, log) = attempt env dataset_subset platform metadata kw (Measurement vars)
                         configuration_subset;
          vars = vars\<lparr>measurement_results := Some res, measurement_logs := Some log\<rparr>
      in (vars,
          AList.update measurement_type res platform_results,
          AList.update measurement_type log platform_logs))"

text \<open>The loop over \<^verbatim>\<open>configuration[platform].keys()\<close>.\<close>

fun measurement_types_loop ::
  "('d, 'c, 'm, 'r, 'l, 'x, 'y) collaborators \<Rightarrow> 'd subset \<Rightarrow> string \<Rightarrow> 'm \<Rightarrow> kwargs
   \<Rightarrow> (string \<times> 'c) list \<Rightarrow> ('r, 'l) locals \<times> ('r, 'l) platform_out
   \<Rightarrow> ('r, 'l) locals \<times> ('r, 'l) platform_out" where
  "measurement_types_loop env dataset_subset platform metadata kw [] st = st"
| "measurement_types_loop env dataset_subset platform metadata kw (entry # rest) st =
     measurement_types_loop env dataset_subset platform metadata kw rest
       (measurement_type_step env dataset_subset platform metadata kw entry st)"

text \<open>One iteration of the loop over \<^verbatim>\<open>configuration.keys()\<close>.\<close>

definition platform_step ::
  "('d, 'c, 'm, 'r, 'l, 'x, 'y) collaborators \<Rightarrow> 'd \<Rightarrow> 'm \<Rightarrow> kwargs \<Rightarrow> bool
   \<Rightarrow> string \<times> (string \<times> 'c) list \<Rightarrow> ('r, 'l) locals \<times> 'r results \<times> 'l logs
   \<Rightarrow> ('r, 'l) locals \<times> 'r results \<times> 'l logs" where
  "platform_step env dataset metadata kw test entry st =
     (let (platform, measurement_types) = entry;
          (vars, results, logs) = st;
          (dataset_subset, failure) = subset_dataset env dataset platform test;
          vars = except_subsetting platform failure vars;
          (vars, platform_results, platform_logs) =
            measurement_types_loop env dataset_subset platform metadata kw measurement_types
              (vars, [], [])
      in (vars,
          AList.update platform platform_results results,
          AList.update platform platform_logs logs))"

text \<open>The loop over \<^verbatim>\<open>configuration.keys()\<close>.\<close>

fun platforms_loop ::
  "('d, 'c, 'm, 'r, 'l, 'x, 'y) collaborators \<Rightarrow> 'd \<Rightarrow> 'm \<Rightarrow> kwargs \<Rightarrow> bool
   \<Rightarrow> 'c configuration \<Rightarrow> ('r, 'l) locals \<times> 'r results \<times> 'l logs
   \<Rightarrow> ('r, 'l) locals \<times> 'r results \<times> 'l logs" where
  "platforms_loop env dataset metadata kw test [] st = st"
| "platforms_loop env dataset metadata kw test (entry # rest) st =
     platforms_loop env dataset metadata kw test rest
       (platform_step env dataset metadata kw test entry st)"

text \<open>
  \<^verbatim>\<open>run_measurements(dataset, configuration, metadata, timing, verbose, save,
  save_directory, save_format, test)\<close>. A configuration is a dictionary of dictionaries:
  an association list in the order of its keys, which are distinct.
\<close>

definition run_measurements ::
  "('d, 'c, 'm, 'r, 'l, 'x, 'y) collaborators \<Rightarrow> 'd \<Rightarrow> 'c configuration \<Rightarrow> 'm \<Rightarrow> bool \<Rightarrow> bool \<Rightarrow> bool
   \<Rightarrow> string \<Rightarrow> string \<Rightarrow> bool \<Rightarrow> 'r results \<times> 'l logs" where
  "run_measurements env dataset configuration metadata timing verbose' save' save_directory'
     save_format' test =
     (let kw = \<lparr>verbose = verbose', save = save', save_directory = save_directory',
                save_format = save_format'\<rparr>;
          (vars, results, logs) =
            platforms_loop env dataset metadata kw test configuration
              (\<lparr>Measurement = None, measurement_results = None, measurement_logs = None\<rparr>, [], [])
      in (results, logs))"

section \<open>The task runner\<close>

text \<open>
  \<^verbatim>\<open>
  class TaskRunner:
      def __init__(self, ground_truth, configuration, metadata=None, test=False, plot_dir="./plots"):
          self.ground_truth  = ground_truth
          self.metadata      = metadata
          self.configuration = configuration
          self.test          = test
          self.plot_dir      = plot_dir
          if ground_truth is str:
              temp = load_measurements(ground_truth)
              self.ground_truth_results, self.ground_truth_logs = temp
          else:
              temp = run_measurements(ground_truth, configuration, metadata,
                  timing=False, verbose=True, save=False, save_directory='./',
                  save_format='json', test=test)
              self.ground_truth_results, self.ground_truth_logs = temp
  \<close>
  The test \<^verbatim>\<open>ground_truth is str\<close> holds for the type \<^verbatim>\<open>str\<close> itself and for no
  other object, so the argument is that type or a dataset. The object is the record of
  its attributes; a constructor that raises gives no object.
\<close>

datatype 'd py_arg = StrType | Obj 'd

record ('d, 'c, 'm, 'r, 'l) task_runner =
  self_ground_truth :: "'d py_arg"
  self_metadata :: 'm
  self_configuration :: "'c configuration"
  self_test :: bool
  self_plot_dir :: string
  self_ground_truth_results :: "'r results"
  self_ground_truth_logs :: "'l logs"

definition TaskRunner_init ::
  "('d, 'c, 'm, 'r, 'l, 'x, 'y) collaborators \<Rightarrow> 'd py_arg \<Rightarrow> 'c configuration \<Rightarrow> 'm \<Rightarrow> bool \<Rightarrow> string
   \<Rightarrow> py_error + ('d, 'c, 'm, 'r, 'l) task_runner" where
  "TaskRunner_init env ground_truth configuration metadata test plot_dir =
     chain
       (case ground_truth of
          StrType \<Rightarrow> load_measurements_str env
        | Obj dataset \<Rightarrow>
            Inr (run_measurements env dataset configuration metadata False True False
                   ''./'' ''json'' test))
       (\<lambda>(results, logs).
          Inr \<lparr>self_ground_truth = ground_truth,
               self_metadata = metadata,
               self_configuration = configuration,
               self_test = test,
               self_plot_dir = plot_dir,
               self_ground_truth_results = results,
               self_ground_truth_logs = logs\<rparr>)"

text \<open>
  \<^verbatim>\<open>
      def __call__(self, dataset, timing=False, verbose=False, save=False,
          save_directory='./', save_format='json'):
          configuration = self.configuration
          simulation_results, simulation_logs = run_measurements(dataset,
              configuration, self.metadata, timing, verbose, save,
              save_directory, save_format, self.test)
          ground_truth_results = self.ground_truth_results
          ground_truth_logs    = self.ground_truth_logs
          metrics, metrics_logs = run_metrics(simulation_results,
              ground_truth_results, configuration, verbose, self.plot_dir)
          results = {
              'simulation_results'   : simulation_results,
              'ground_truth_results' : ground_truth_results,
              'metrics'              : metrics
          }
          logs    = {
              'simulation_logs'   : simulation_logs,
              'ground_truth_logs' : ground_truth_logs,
              'metrics_logs'      : metrics_logs
          }
          return results, logs

      def get_results(self):
          return self.ground_truth_results, self.ground_truth_logs
  \<close>
  A call returns its value, or the exception of the metrics engine, together with the
  object as the call leaves it: the method assigns to no attribute.
\<close>

record ('r, 'x) results_bundle =
  simulation_results :: "'r results"
  ground_truth_results :: "'r results"
  metrics :: 'x

record ('l, 'y) logs_bundle =
  simulation_logs :: "'l logs"
  ground_truth_logs :: "'l logs"
  metrics_logs :: 'y

definition TaskRunner_call ::
  "('d, 'c, 'm, 'r, 'l, 'x, 'y) collaborators \<Rightarrow> ('d, 'c, 'm, 'r, 'l) task_runner
   \<Rightarrow> 'd \<Rightarrow> bool \<Rightarrow> bool \<Rightarrow> bool \<Rightarrow> string \<Rightarrow> string
   \<Rightarrow> (py_error + ('r, 'x) results_bundle \<times> ('l, 'y) logs_bundle) \<times> ('d, 'c, 'm, 'r, 'l) task_runner" where
  "TaskRunner_call env self dataset timing verbose' save' save_directory' save_format' =
     (let configuration = self_configuration self;
          (simulation_results', simulation_logs') =
             run_measurements env dataset configuration (self_metadata self) timing verbose'
               save' save_directory' save_format' (self_test self);
          ground_truth_results' = self_ground_truth_results self;
          ground_truth_logs' = self_ground_truth_logs self
      in (chain (run_metrics env simulation_results' ground_truth_results' configuration
                   verbose' (self_plot_dir self))
            (\<lambda>(metrics', metrics_logs').
               Inr (\<lparr>simulation_results = simulation_results',
                     ground_truth_results = ground_truth_results',
                     metrics = metrics'\<rparr>,
                    \<lparr>simulation_logs = simulation_logs',
                     ground_truth_logs = ground_truth_logs',
                     metrics_logs = metrics_logs'\<rparr>)),
          self))"

definition get_results :: "('d, 'c, 'm, 'r, 'l) task_runner \<Rightarrow> 'r results \<times> 'l logs" where
  "get_results self = (self_ground_truth_results self, self_ground_truth_logs self)"

text \<open>
  A runner called one time after another, each call with its arguments \<^verbatim>\<open>(dataset,
  timing, verbose, save, save_directory, save_format)\<close>: the values returned, in order,
  and the object after the last call.
\<close>

fun TaskRunner_calls ::
  "('d, 'c, 'm, 'r, 'l, 'x, 'y) collaborators \<Rightarrow> ('d, 'c, 'm, 'r, 'l) task_runner
   \<Rightarrow> ('d \<times> bool \<times> bool \<times> bool \<times> string \<times> string) list
   \<Rightarrow> (py_error + ('r, 'x) results_bundle \<times> ('l, 'y) logs_bundle) list
      \<times> ('d, 'c, 'm, 'r, 'l) task_runner" where
  "TaskRunner_calls env self [] = ([], self)"
| "TaskRunner_calls env self ((dataset, timing, verbose', save', save_directory', save_format') # calls) =
     (let (out, self) = TaskRunner_call env self dataset timing verbose' save' save_directory'
                          save_format';
          (outs, self) = TaskRunner_calls env self calls
      in (out # outs, self))"

section \<open>Notions used in the statements\<close>

text \<open>
  The ranked list that \<^verbatim>\<open>rbo_score\<close> reads from a table: the column other than
  \<^verbatim>\<open>value\<close> when there are two columns, the index otherwise.
\<close>

definition ranked_list :: "'a frame \<Rightarrow> 'a list option" where
  "ranked_list g =
     (if length (columns g) = 2
      then (case filter (\<lambda>c. c \<noteq> ''value'') (columns g) of
              [] \<Rightarrow> None
            | entity # _ \<Rightarrow> map_of (cols g) entity)
      else Some (index g))"

text \<open>
  A numeric input of a distributional metric, with its values \<open>vs\<close>: a nonempty list
  of numbers, or a nonempty table with a numeric \<^verbatim>\<open>value\<close> column. It is a valid
  sample when one value at least is finite.
\<close>

definition numeric_input :: "cell pyobj \<Rightarrow> pyfloat list \<Rightarrow> bool" where
  "numeric_input x vs \<longleftrightarrow>
     (case x of
        PyList cs \<Rightarrow> cs \<noteq> [] \<and> cells_num cs = Some vs
      | PyFrame f \<Rightarrow>
          index f \<noteq> [] \<and> map_option cells_num (map_of (cols f) ''value'') = Some (Some vs)
      | _ \<Rightarrow> False)"

definition valid_sample :: "cell pyobj \<Rightarrow> pyfloat list \<Rightarrow> bool" where
  "valid_sample x vs \<longleftrightarrow> numeric_input x vs \<and> (\<exists>v \<in> set vs. pf_isfinite v)"

text \<open>
  What the continuous branch of \<^verbatim>\<open>js_divergence\<close> computes from the values of two
  numeric inputs.
\<close>

definition js_numeric :: "libs \<Rightarrow> pyfloat list \<Rightarrow> pyfloat list \<Rightarrow> real \<Rightarrow> pyres" where
  "js_numeric lib xv yv base =
     (let fx = filter pf_isfinite xv; fy = filter pf_isfinite yv;
          bins = bin_edges lib ''doane'' (map the_fin (fx @ fy))
      in js_divergence_tail (map (\<lambda>n. Fin (real n)) (histogram_counts bins fx))
                            (map (\<lambda>n. Fin (real n)) (histogram_counts bins fy)) base)"

text \<open>
  The seven names that \<^verbatim>\<open>run_measurements\<close> knows, and the class most recently
  bound to \<^verbatim>\<open>Measurement\<close> after the loop has met a sequence of names.
\<close>

definition known_measurement_types :: "string list" where
  "known_measurement_types =
     [''social_activity'', ''information_cascades'', ''social_structure'', ''cross_platform'',
      ''multi_platform'', ''recurrence'', ''persistent_groups'']"

definition last_resolved :: "string list \<Rightarrow> measurement_class option" where
  "last_resolved names = (case rev (List.map_filter resolve names) of [] \<Rightarrow> None | M # _ \<Rightarrow> Some M)"

text \<open>
  The class bound to \<^verbatim>\<open>Measurement\<close> when the loop, entered with \<open>m\<close> bound (or
  nothing, \<open>None\<close>), has met the names.
\<close>

definition bound_after :: "measurement_class option \<Rightarrow> string list \<Rightarrow> measurement_class option" where
  "bound_after m names = (case last_resolved names of None \<Rightarrow> m | Some M \<Rightarrow> Some M)"

text \<open>
  The measurement-type names of a configuration, in the order in which the two loops
  meet them.
\<close>

definition names_of :: "'c configuration \<Rightarrow> string list" where
  "names_of configuration = concat (map (\<lambda>entry. map fst (snd entry)) configuration)"

text \<open>
  One pass of the platform loop for the platform \<open>P\<close> with the measurement types
  \<open>M\<close>, entered with the locals \<open>vars\<close>: the locals and the two dictionaries of the
  platform after its measurement types.
\<close>

definition platform_pass ::
  "('d, 'c, 'm, 'r, 'l, 'x, 'y) collaborators \<Rightarrow> 'd \<Rightarrow> 'm \<Rightarrow> kwargs \<Rightarrow> bool \<Rightarrow> string
   \<Rightarrow> (string \<times> 'c) list \<Rightarrow> ('r, 'l) locals \<Rightarrow> ('r, 'l) locals \<times> ('r, 'l) platform_out" where
  "platform_pass env dataset md kw test P M vars =
     measurement_types_loop env (fst (subset_dataset env dataset P test)) P md kw M
       (except_subsetting P (snd (subset_dataset env dataset P test)) vars, [], [])"

text \<open>The result and the log entry filed under a platform and a measurement type.\<close>

definition entry_at :: "'r results \<times> 'l logs \<Rightarrow> string \<Rightarrow> string \<Rightarrow> ('r option \<times> 'l log_entry) option" where
  "entry_at out platform measurement_type =
     (case (map_of (fst out) platform, map_of (snd out) platform) of
        (Some platform_results, Some platform_logs) \<Rightarrow>
          (case (map_of platform_results measurement_type, map_of platform_logs measurement_type) of
             (Some r, Some l) \<Rightarrow> Some (r, l)
           | _ \<Rightarrow> None)
      | _ \<Rightarrow> None)"

text \<open>
  Stand-ins for the collaborators of the orchestration, for the examples. A dataset is
  the list of the platform names of its rows, or \<open>None\<close> for a table without a
  \<^verbatim>\<open>platform\<close> column, on which the selection raises \<^verbatim>\<open>KeyError\<close>. The
  reduction for tests keeps the first row and raises \<^verbatim>\<open>ValueError\<close> when there is
  none. A measurement class cannot be built on the empty list; built on a dataset, it
  returns the number of rows plus its configuration, and its class as the log. The
  metrics engine returns the number of platforms on each side.
\<close>

definition sample_select :: "string list option \<Rightarrow> string \<Rightarrow> py_error + string list option" where
  "sample_select dataset platform =
     (case dataset of None \<Rightarrow> Inl KeyError
                    | Some rows \<Rightarrow> Inr (Some (filter (\<lambda>r. r = platform) rows)))"

definition sample_subset_for_test ::
  "string list option subset \<Rightarrow> py_error + string list option subset" where
  "sample_subset_for_test d =
     (case d of Data (Some (r # rows)) \<Rightarrow> Inr (Data (Some [r])) | _ \<Rightarrow> Inl ValueError)"

definition sample_construct ::
  "measurement_class \<Rightarrow> string list option subset \<Rightarrow> string option \<Rightarrow> nat \<Rightarrow> unit
   \<Rightarrow> py_error + (kwargs \<Rightarrow> py_error + nat \<times> measurement_class)" where
  "sample_construct M d platform configuration_subset metadata =
     (case d of Data (Some rows) \<Rightarrow> Inr (\<lambda>kw. Inr (length rows + configuration_subset, M))
              | _ \<Rightarrow> Inl TypeError)"

definition sample_run_metrics ::
  "nat results \<Rightarrow> nat results \<Rightarrow> nat configuration \<Rightarrow> bool \<Rightarrow> string \<Rightarrow> py_error + nat \<times> nat" where
  "sample_run_metrics simulation ground_truth configuration verbose' plot_dir =
     Inr (length simulation, length ground_truth)"

definition sample_env ::
  "(string list option, nat, unit, nat, measurement_class, nat, nat) collaborators" where
  "sample_env = \<lparr>select_platform = sample_select, subset_for_test = sample_subset_for_test,
                 construct = sample_construct, load_measurements_str = Inl TypeError,
                 run_metrics = sample_run_metrics\<rparr>"

text \<open>The runner that the stand-ins build on one row of the platform \<^verbatim>\<open>twitter\<close>.\<close>

definition sample_runner ::
  "(string list option, nat, unit, nat, measurement_class) task_runner" where
  "sample_runner =
     \<lparr>self_ground_truth = Obj (Some [''twitter'']),
      self_metadata = (),
      self_configuration = [(''twitter'', [(''social_activity'', 1)])],
      self_test = False,
      self_plot_dir = ''./plots'',
      self_ground_truth_results = [(''twitter'', [(''social_activity'', Some 2)])],
      self_ground_truth_logs = [(''twitter'', [(''social_activity'', Logs SocialActivityMeasurements)])]\<rparr>"

text \<open>
  Bin-width estimators and library stand-ins for the examples. The rule \<^verbatim>\<open>'doane'\<close>
  of \<open>sample_width\<close> reports no width, which gives a single bin, and its other rules
  ask for two bins. The join pairs the \<^verbatim>\<open>value\<close> columns row by row.
\<close>

definition sample_width :: "string \<Rightarrow> real list \<Rightarrow> real" where
  "sample_width method a = (if method = ''doane'' then 0 else (Max (set a) - Min (set a)) / 2)"

definition sample_merge :: "cell frame \<Rightarrow> cell frame \<Rightarrow> py_error + (pyfloat \<times> pyfloat) list" where
  "sample_merge g s =
     (case (map_option cells_num (map_of (cols g) ''value''),
            map_option cells_num (map_of (cols s) ''value'')) of
        (Some (Some a), Some (Some b)) \<Rightarrow> Inr (zip a b)
      | _ \<Rightarrow> Inl KeyError)"

definition sample_join :: "cell frame \<Rightarrow> cell frame \<Rightarrow> string \<Rightarrow> cell \<Rightarrow> py_error + (pyfloat \<times> pyfloat) list" where
  "sample_join g s join fill_value = sample_merge g s"

definition sample_r2_score :: "pyfloat list \<Rightarrow> pyfloat list \<Rightarrow> py_error + pyfloat" where
  "sample_r2_score y_true y_pred = Inl ValueError"

definition sample_libs :: libs where
  "sample_libs = \<lparr>bin_width = sample_width, outer_merge = sample_merge,
                  join_values = sample_join, r2_score = sample_r2_score\<rparr>"

section \<open>Basic facts\<close>

lemma chain_Inr [simp]: "chain (Inr v) f = f v"
  by (simp add: chain_def)

lemma chain_Inl [simp]: "chain (Inl e) f = Inl e"
  by (simp add: chain_def)

lemmas eval_defs = check_data_types_def value_column_def cells_num_def get_hist_bins_def
  np_concatenate_def np_histogram_edges_def bin_edges_def outer_edges_def np_linspace_def
  np_histogram_def isfinite_select_def the_vals_def np_sum_def np_divide_def entropy_def
  np_nan_to_num_def np_subtract_def np_mean_def pf_sub_def pf_inf_def sample_libs_def
  sample_width_def

section \<open>Properties of the scalar metrics\<close>

lemma str_to_float_x: "str_to_float ''x'' = None"
  by (simp add: str_to_float_def py_strip_def py_isspace_def py_lower_char_def
      parse_floatnumber_def parse_number_def is_digit_def)

lemma absolute_percentage_error_zero:
  "absolute_percentage_error (PyScalar (PyInt 0)) simulation = Inr RNone"
  by (simp add: absolute_percentage_error_def)

lemma absolute_difference_None: "absolute_difference ground_truth PyNone = Inr RNone"
  by (simp add: absolute_difference_def)

lemma absolute_difference_list: "absolute_difference ground_truth (PyList xs) = Inr RNone"
  by (simp add: absolute_difference_def)

text \<open>
  Claim C5. The scalar metrics are meant to give \<^verbatim>\<open>None\<close> on a non-numeric input.
  They do on \<^verbatim>\<open>None\<close>, on a list and when the ground truth is 0; on a string that
  is not a number, \<^verbatim>\<open>float\<close> raises \<^verbatim>\<open>ValueError\<close>, which the handler for
  \<^verbatim>\<open>TypeError\<close> does not catch: \<^verbatim>\<open>absolute_difference("x", 3)\<close> raises, and
  so does \<^verbatim>\<open>absolute_percentage_error("x", 3)\<close>.
\<close>

theorem absolute_difference_string_raises:
  "absolute_difference (PyScalar (PyStr ''x'')) (PyScalar (PyInt 3)) = Inl ValueError
   \<and> absolute_percentage_error (PyScalar (PyStr ''x'')) (PyScalar (PyInt 3)) = Inl ValueError"
  by (simp add: absolute_difference_def absolute_percentage_error_def str_to_float_x)

section \<open>Properties of the rank-biased overlap\<close>

lemma py_sorted2_same [simp]: "py_sorted2 a a = (a, a)"
  by (simp add: py_sorted2_def tuple_less_def)

lemma card_take_distinct: "distinct X \<Longrightarrow> i \<le> length X \<Longrightarrow> card (set (take i X)) = i"
  by (simp add: distinct_card)

lemma rbo_accumulate_Suc:
  "rbo_accumulate x_d p (Suc n) =
     rbo_accumulate x_d p n + (real (x_d (Suc n)) / real (Suc n)) * p ^ n"
proof -
  have u: "[1..<Suc n + 1] = [1..<n + 1] @ [Suc n]" by simp
  show ?thesis
    unfolding rbo_accumulate_def u foldl_append by simp
qed

lemma rbo_accumulate_0: "rbo_accumulate x_d p 0 = 0"
  by (simp add: rbo_accumulate_def)

text \<open>A plain list has no \<^verbatim>\<open>columns\<close>: the score is defined on tables.\<close>

lemma rbo_score_list: "rbo_score (PyList X) (PyList Y) p = Inl AttributeError"
  by (simp add: rbo_score_def)

text \<open>
  On two copies of a list without repetition the overlap at depth \<open>i\<close> is \<open>i\<close>, and
  the weighted sum is the geometric sum.
\<close>

lemma rbo_accumulate_identical:
  assumes "distinct X"
  shows "n \<le> length X \<Longrightarrow> rbo_accumulate (rbo_overlaps X X) p n * (1 - p) = 1 - p ^ n"
proof (induction n)
  case 0
  then show ?case by (simp add: rbo_accumulate_0)
next
  case (Suc n)
  have c: "rbo_overlaps X X (Suc n) = Suc n"
    using assms Suc.prems by (simp add: rbo_overlaps_def card_take_distinct del: take_Suc)
  have IH: "rbo_accumulate (rbo_overlaps X X) p n * (1 - p) = 1 - p ^ n"
    using Suc by simp
  have "rbo_accumulate (rbo_overlaps X X) p (Suc n) * (1 - p)
        = (rbo_accumulate (rbo_overlaps X X) p n + p ^ n) * (1 - p)"
    unfolding rbo_accumulate_Suc c by simp
  also have "\<dots> = rbo_accumulate (rbo_overlaps X X) p n * (1 - p) + p ^ n * (1 - p)"
    by (rule distrib_right)
  also have "\<dots> = (1 - p ^ n) + p ^ n * (1 - p)"
    by (simp only: IH)
  also have "\<dots> = 1 - p ^ Suc n"
    by (simp add: algebra_simps)
  finally show ?case .
qed




section \<open>Properties of the fit and divergence metrics\<close>

text \<open>
  Claim C4. The coefficient of determination of a sequence against itself is 1, but the
  branch of \<^verbatim>\<open>r2\<close> for a raw list returns the root mean squared error, as
  \<^verbatim>\<open>rmse\<close> does: on \<^verbatim>\<open>[1, 2, 3, 2, 1]\<close> against itself the result is 0.
\<close>

theorem r2_list_is_rmse:
  "r2 sample_libs (PyList [PyInt 1, PyInt 2, PyInt 3, PyInt 2, PyInt 1])
                  (PyList [PyInt 1, PyInt 2, PyInt 3, PyInt 2, PyInt 1]) ''inner'' (PyInt 0)
   = Inr (RFloat (Fin 0))"
  by (simp add: r2_def eval_defs)

text \<open>
  The continuous branch of the smoothed divergence reads the estimator of the rule
  \<^verbatim>\<open>'auto'\<close> and no other; the plain divergence reads the one of \<^verbatim>\<open>'doane'\<close>.
\<close>

lemma bin_edges_cong:
  assumes "bin_width lib1 method = bin_width lib2 method"
  shows "bin_edges lib1 method = bin_edges lib2 method"
  unfolding bin_edges_def assms ..

lemma kl_divergence_smoothed_reads_auto:
  assumes "bin_width lib1 ''auto'' = bin_width lib2 ''auto''"
  shows "kl_divergence_smoothed lib1 ground_truth simulation alpha False
         = kl_divergence_smoothed lib2 ground_truth simulation alpha False"
  unfolding kl_divergence_smoothed_def get_hist_bins_def np_histogram_edges_def
    bin_edges_cong [OF assms] by simp

lemma kl_divergence_reads_doane:
  assumes "bin_width lib1 ''doane'' = bin_width lib2 ''doane''"
  shows "kl_divergence lib1 ground_truth simulation False
         = kl_divergence lib2 ground_truth simulation False"
  unfolding kl_divergence_def get_hist_bins_def np_histogram_edges_def
    bin_edges_cong [OF assms] by simp

text \<open>
  Claim C3. \<^verbatim>\<open>kl_divergence\<close> asks \<^verbatim>\<open>get_hist_bins\<close> for the rule
  \<^verbatim>\<open>'doane'\<close>; \<^verbatim>\<open>kl_divergence_smoothed\<close> passes no rule and gets
  \<^verbatim>\<open>'auto'\<close>. With estimators that differ on the sample \<^verbatim>\<open>[0.0]\<close> against
  \<^verbatim>\<open>[1.0]\<close>, the smoothed divergence is computed on the two bins of the rule
  \<^verbatim>\<open>'auto'\<close>, where it is \<open>ln 101\<close>, and the plain one on the single bin of
  \<^verbatim>\<open>'doane'\<close>, where it is 0.
\<close>

theorem kl_divergence_smoothed_default_bins:
  "kl_divergence_smoothed sample_libs (PyList [PyFloat (Fin 0)]) (PyList [PyFloat (Fin 1)])
     (1 / 100) False = Inr (RFloat (Fin (ln 101)))
   \<and> kl_divergence sample_libs (PyList [PyFloat (Fin 0)]) (PyList [PyFloat (Fin 1)]) False
     = Inr (RFloat (Fin 0))"
  by (simp add: kl_divergence_smoothed_def kl_divergence_def eval_defs upt_rec)

text \<open>
  Claim C10, as the code has it. With \<^verbatim>\<open>discrete=True\<close> the smoothed divergence
  never returns: it raises the error of the outer join when the two inputs cannot be
  joined, and \<^verbatim>\<open>UnboundLocalError\<close> whenever the join succeeds, since
  \<^verbatim>\<open>smoothed_simulation\<close> is bound in the other branch only.
\<close>

theorem kl_divergence_smoothed_discrete:
  "kl_divergence_smoothed lib ground_truth simulation alpha True =
     (case merge_outer lib ground_truth simulation of
        Inl e \<Rightarrow> Inl e
      | Inr df \<Rightarrow> Inl UnboundLocalError)"
  by (simp add: kl_divergence_smoothed_def chain_def np_divide_def Let_def split: sum.splits)

text \<open>
  The error is not the unbound local for every pair of inputs: two plain lists have no
  \<^verbatim>\<open>merge\<close>, and the call raises \<^verbatim>\<open>AttributeError\<close>.
\<close>

theorem kl_divergence_smoothed_discrete_counterexample:
  "kl_divergence_smoothed sample_libs (PyList [PyFloat (Fin 1)]) (PyList [PyFloat (Fin 2)])
     (1 / 100) True = Inl AttributeError
   \<and> kl_divergence_smoothed sample_libs (PyList [PyFloat (Fin 1)]) (PyList [PyFloat (Fin 2)])
     (1 / 100) True \<noteq> Inl UnboundLocalError"
  by (simp add: kl_divergence_smoothed_def merge_outer_def)

section \<open>Properties of the Jensen-Shannon divergence\<close>

lemma numeric_input_not_None: "numeric_input x vs \<Longrightarrow> x \<noteq> PyNone"
  by (auto simp: numeric_input_def)

lemma numeric_input_len: "numeric_input x vs \<Longrightarrow> \<exists>n. py_len x = Inr (Suc n)"
  by (cases x) (auto simp: numeric_input_def neq_Nil_conv)

lemma numeric_input_array:
  "numeric_input x vs \<Longrightarrow> \<exists>cs. value_column x = Inr (PyList cs) \<and> np_array (PyList cs) = NdArray 1 (Some vs)"
  by (cases x) (auto simp: numeric_input_def value_column_def frame_getitem_def split: option.splits)

lemma check_data_types_numeric:
  assumes "numeric_input x xv" "numeric_input y yv"
  shows "check_data_types x y = Inr (NdArray 1 (Some xv), NdArray 1 (Some yv))"
proof -
  obtain cs where cs: "value_column x = Inr (PyList cs)" "np_array (PyList cs) = NdArray 1 (Some xv)"
    using numeric_input_array [OF assms(1)] by blast
  obtain ds where ds: "value_column y = Inr (PyList ds)" "np_array (PyList ds) = NdArray 1 (Some yv)"
    using numeric_input_array [OF assms(2)] by blast
  show ?thesis
    unfolding check_data_types_def cs(1) ds(1) chain_Inr cs(2) ds(2) ..
qed

lemma all_finite_filter:
  "(\<forall>x \<in> set (filter pf_isfinite xs @ filter pf_isfinite ys). pf_isfinite x) = True"
  by auto

lemma get_hist_bins_finite:
  "get_hist_bins lib (NdArray (Suc 0) (Some (filter pf_isfinite xs)))
      (NdArray (Suc 0) (Some (filter pf_isfinite ys))) method
     = Inr (bin_edges lib method (map the_fin (filter pf_isfinite xs @ filter pf_isfinite ys)))"
  unfolding get_hist_bins_def np_concatenate_def np_histogram_edges_def
  apply (simp only: ndarray.sel)
  apply (simp only: nat.simps simp_thms if_False prod.case option.case chain_Inr ndarray.sel)
  apply (simp only: all_finite_filter if_True)
  done

lemma js_divergence_numeric:
  assumes "numeric_input x xv" "numeric_input y yv"
  shows "js_divergence lib x y False base = Inr (js_numeric lib xv yv base)"
proof -
  obtain n where n: "py_len x = Inr (Suc n)" using numeric_input_len [OF assms(1)] by blast
  obtain m where m: "py_len y = Inr (Suc m)" using numeric_input_len [OF assms(2)] by blast
  have nn: "x \<noteq> PyNone" "y \<noteq> PyNone"
    using assms by (auto dest: numeric_input_not_None)
  show ?thesis
    unfolding js_divergence_def
    by (simp add: nn n m check_data_types_numeric [OF assms] isfinite_select_def
        get_hist_bins_finite np_histogram_def js_numeric_def Let_def)
qed

lemma length_histogram_counts: "length (histogram_counts E a) = length E - 1"
  by (induction E a rule: histogram_counts.induct) auto

lemma js_divergence_tail_float:
  "length g = length s \<Longrightarrow> \<exists>v. js_divergence_tail g s base = RFloat v"
  by (simp add: js_divergence_tail_def np_divide_def Let_def)

lemma js_numeric_float: "\<exists>v. js_numeric lib xv yv base = RFloat v"
  unfolding js_numeric_def Let_def
  by (rule js_divergence_tail_float) (simp add: length_histogram_counts)

lemma js_divergence_guard:
  assumes "simulation = PyNone \<or> (\<exists>n. py_len simulation = Inr n \<and>
            (n = 0 \<or> ground_truth = PyNone \<or> py_len ground_truth = Inr 0))"
  shows "js_divergence lib ground_truth simulation discrete base = Inr RNone"
proof (cases "simulation = PyNone")
  case True
  then show ?thesis by (simp add: js_divergence_def)
next
  case False
  with assms obtain n where n: "py_len simulation = Inr n"
    and c: "n = 0 \<or> ground_truth = PyNone \<or> py_len ground_truth = Inr 0"
    by blast
  show ?thesis
  proof (cases "n = 0 \<or> ground_truth = PyNone")
    case True
    then show ?thesis using False n by (auto simp add: js_divergence_def)
  next
    case False
    with c have "py_len ground_truth = Inr 0" by simp
    then show ?thesis using \<open>simulation \<noteq> PyNone\<close> n by (simp add: js_divergence_def)
  qed
qed





subsection \<open>Symmetry\<close>

lemma pf_add_commute: "pf_add a b = pf_add b a"
  by (cases a; cases b) simp_all

lemma map2_commute:
  assumes "\<And>a b. f a b = f b a"
  shows "map2 f xs ys = map2 f ys xs"
proof (induction xs arbitrary: ys)
  case Nil
  then show ?case by simp
next
  case (Cons x xs)
  then show ?case using assms by (cases ys) simp_all
qed

lemma js_divergence_tail_commute:
  "js_divergence_tail g s base = js_divergence_tail s g base"
proof -
  have m: "map2 (\<lambda>g s. pf_mul (Fin (1 / 2)) (pf_add g s)) a b
         = map2 (\<lambda>g s. pf_mul (Fin (1 / 2)) (pf_add g s)) b a" for a b
    by (rule map2_commute) (simp add: pf_add_commute)
  show ?thesis
    unfolding js_divergence_tail_def Let_def
    by (simp add: m [of "np_divide g (np_sum g)"] pf_add_commute)
qed

lemma outer_edges_commute: "outer_edges (a @ b) = outer_edges (b @ a)"
  by (simp add: outer_edges_def Un_commute)

lemma bin_edges_commute:
  assumes "bin_width lib method (a @ b) = bin_width lib method (b @ a)"
  shows "bin_edges lib method (a @ b) = bin_edges lib method (b @ a)"
proof -
  have e: "(a @ b = []) = (b @ a = [])" by auto
  show ?thesis
    unfolding bin_edges_def outer_edges_commute [of a b] assms e ..
qed

lemma js_numeric_commute:
  assumes "\<And>a b. bin_width lib ''doane'' (a @ b) = bin_width lib ''doane'' (b @ a)"
  shows "js_numeric lib xv yv base = js_numeric lib yv xv base"
  unfolding js_numeric_def Let_def map_append
  by (subst js_divergence_tail_commute) (simp add: bin_edges_commute [OF assms])

subsection \<open>A distribution against itself\<close>

lemma foldl_pf_add_Fin: "foldl pf_add (Fin a) (map Fin rs) = Fin (a + sum_list rs)"
  by (induction rs arbitrary: a) (simp_all add: add.assoc)

lemma np_sum_Fin: "np_sum (map Fin rs) = Fin (sum_list rs)"
  using foldl_pf_add_Fin [of 0 rs] by (simp add: np_sum_def)

lemma np_divide_Fin: "d \<noteq> 0 \<Longrightarrow> np_divide (map Fin rs) (Fin d) = map Fin (map (\<lambda>r. r / d) rs)"
  by (simp add: np_divide_def)

lemma map2_same: "map2 f xs xs = map (\<lambda>x. f x x) xs"
  by (induction xs) simp_all

lemma rel_entr_self: "0 \<le> a \<Longrightarrow> rel_entr (Fin a) (Fin a) = Fin 0"
  by (cases "a = 0") (simp_all add: sgn_if)

lemma np_sum_zeros: "np_sum (map (\<lambda>x. Fin 0) xs) = Fin 0"
proof -
  have "np_sum (map Fin (map (\<lambda>x. 0) xs)) = Fin (sum_list (map (\<lambda>x. 0) xs))"
    by (rule np_sum_Fin)
  then show ?thesis by (simp add: comp_def)
qed

lemma entropy_self:
  assumes "\<forall>r \<in> set ps. 0 \<le> r" and "sum_list ps \<noteq> 0" and "0 < base" and "base \<noteq> 1"
  shows "entropy (map Fin ps) (map Fin ps) (Some base) = Fin 0"
proof -
  let ?qs = "map (\<lambda>r. r / sum_list ps) ps"
  have pk: "np_divide (map Fin ps) (np_sum (map Fin ps)) = map Fin ?qs"
    by (simp add: np_sum_Fin np_divide_Fin assms(2))
  have "map (\<lambda>x. rel_entr x x) (map Fin ?qs) = map (\<lambda>x. Fin 0) ps"
  proof -
    have "rel_entr (Fin (r / sum_list ps)) (Fin (r / sum_list ps)) = Fin 0" if "r \<in> set ps" for r
    proof -
      have "0 \<le> sum_list ps" using assms(1) by (simp add: sum_list_nonneg)
      moreover have "0 \<le> r" using assms(1) that by simp
      ultimately have "0 \<le> r / sum_list ps" by simp
      then show ?thesis by (rule rel_entr_self)
    qed
    then show ?thesis by (simp add: comp_def)
  qed
  then have S: "np_sum (map2 rel_entr (map Fin ?qs) (map Fin ?qs)) = Fin 0"
    by (simp only: map2_same np_sum_zeros)
  have l: "ln base \<noteq> 0" using assms(3,4) by simp
  show ?thesis
    unfolding entropy_def Let_def pk S using assms(3) l by simp
qed

lemma sum_list_divide: "sum_list (map (\<lambda>r. r / d) cs) = sum_list cs / (d::real)"
  by (induction cs) (simp_all add: add_divide_distrib)

lemma js_divergence_tail_self:
  assumes "\<forall>r \<in> set cs. 0 \<le> r" and "sum_list cs \<noteq> 0" and "0 < base" and "base \<noteq> 1"
  shows "js_divergence_tail (map Fin cs) (map Fin cs) base = RFloat (Fin 0)"
proof -
  let ?ps = "map (\<lambda>r. r / sum_list cs) cs"
  have p: "np_divide (map Fin cs) (np_sum (map Fin cs)) = map Fin ?ps"
    by (simp add: np_sum_Fin np_divide_Fin assms(2))
  have m: "map2 (\<lambda>g s. pf_mul (Fin (1 / 2)) (pf_add g s)) (map Fin ?ps) (map Fin ?ps) = map Fin ?ps"
    by (simp add: map2_same comp_def)
  have nn: "\<forall>r \<in> set ?ps. 0 \<le> r"
  proof -
    have "0 \<le> sum_list cs" using assms(1) by (simp add: sum_list_nonneg)
    then show ?thesis using assms(1) by simp
  qed
  have "sum_list ?ps = sum_list cs / sum_list cs"
    by (rule sum_list_divide)
  then have s1: "sum_list ?ps \<noteq> 0" using assms(2) by simp
  have e: "entropy (map Fin ?ps) (map Fin ?ps) (Some base) = Fin 0"
    using nn s1 assms(3,4) by (rule entropy_self)
  show ?thesis
    unfolding js_divergence_tail_def Let_def p m e by simp
qed

subsection \<open>The histogram of a sample on its own bins counts every value\<close>

lemma length_filter_split:
  assumes "\<And>x. R x \<longleftrightarrow> P x \<or> Q x" and "\<And>x. \<not> (P x \<and> Q x)"
  shows "length (filter P a) + length (filter Q a) = length (filter R a)"
proof (induction a)
  case Nil
  then show ?case by simp
next
  case (Cons x a)
  then show ?case using assms [of x] by auto
qed

lemma in_bin_split:
  assumes "lo \<le> hi" and "hi \<le> L"
  shows "in_bin True lo L x \<longleftrightarrow> in_bin False lo hi x \<or> in_bin True hi L x"
    and "\<not> (in_bin False lo hi x \<and> in_bin True hi L x)"
  using assms by (cases x; auto)+

lemma sorted_hd_le_last: "sorted (x # xs) \<Longrightarrow> x \<le> last (x # xs)"
  by (induction xs arbitrary: x) auto

lemma sum_histogram_counts:
  "sorted E \<Longrightarrow> 2 \<le> length E \<Longrightarrow>
   sum_list (histogram_counts E a) = length (filter (in_bin True (hd E) (last E)) a)"
proof (induction E a rule: histogram_counts.induct)
  case (1 lo hi es a)
  show ?case
  proof (cases es)
    case Nil
    then show ?thesis by simp
  next
    case (Cons e es')
    have s: "sorted (hi # es)" using "1.prems"(1) by simp
    have IH: "sum_list (histogram_counts (hi # es) a)
              = length (filter (in_bin True hi (last (hi # es))) a)"
      using "1.IH" s Cons by simp
    have le1: "lo \<le> hi" using "1.prems"(1) by simp
    have le2: "hi \<le> last (hi # es)" using s by (rule sorted_hd_le_last)
    have "length (filter (in_bin False lo hi) a) + length (filter (in_bin True hi (last (hi # es))) a)
          = length (filter (in_bin True lo (last (hi # es))) a)"
      by (rule length_filter_split) (use in_bin_split [OF le1 le2] in blast)+
    then show ?thesis using IH Cons by simp
  qed
qed simp_all

lemma np_linspace_length: "length (np_linspace a b num) = num"
  by (simp add: np_linspace_def)

lemma np_linspace_hd: "hd (np_linspace a b (Suc n)) = a"
  by (simp add: np_linspace_def hd_map upt_conv_Cons del: upt_Suc)

lemma np_linspace_last: "0 < n \<Longrightarrow> last (np_linspace a b (Suc n)) = b"
  by (simp add: np_linspace_def)

lemma np_linspace_sorted:
  assumes "a \<le> b"
  shows "sorted (np_linspace a b num)"
proof -
  define c where "c = (b - a) / real (num - 1)"
  have c: "0 \<le> c" using assms by (simp add: c_def)
  have "sorted_wrt (\<lambda>i j. a + real i * c \<le> a + real j * c) [0..<num]"
  proof (rule sorted_wrt_mono_rel [OF _ sorted_upt])
    fix i j :: nat
    assume "i \<le> j"
    then have "real i * c \<le> real j * c" using c by (simp add: mult_right_mono)
    then show "a + real i * c \<le> a + real j * c" by simp
  qed
  then show ?thesis
    unfolding np_linspace_def c_def [symmetric] by (simp only: sorted_map)
qed

lemma outer_edges_cover:
  assumes "a \<noteq> []" and "outer_edges a = (f, l)"
  shows "f < l" and "\<forall>r \<in> set a. f \<le> r \<and> r \<le> l"
proof -
  have le: "Min (set a) \<le> Max (set a)" using assms(1) by simp
  show "f < l"
  proof (cases "Min (set a) = Max (set a)")
    case True
    then show ?thesis using assms by (simp add: outer_edges_def Let_def)
  next
    case False
    then have "Min (set a) < Max (set a)" using le by (rule le_neq_trans [rotated])
    then show ?thesis using assms False by (simp add: outer_edges_def Let_def)
  qed
  show "\<forall>r \<in> set a. f \<le> r \<and> r \<le> l"
  proof
    fix r assume "r \<in> set a"
    then have b: "Min (set a) \<le> r" "r \<le> Max (set a)" by simp_all
    show "f \<le> r \<and> r \<le> l"
    proof (cases "Min (set a) = Max (set a)")
      case True
      then have "f = Min (set a) - 1 / 2" "l = Max (set a) + 1 / 2"
        using assms by (simp_all add: outer_edges_def Let_def)
      then show ?thesis using b by linarith
    next
      case False
      then have "f = Min (set a)" "l = Max (set a)"
        using assms by (simp_all add: outer_edges_def Let_def)
      then show ?thesis using b by simp
    qed
  qed
qed

lemma bin_edges_shape:
  assumes "a \<noteq> []" and "0 \<le> bin_width lib method a" and "outer_edges a = (f, l)"
  shows "\<exists>n>0. bin_edges lib method a = np_linspace f l (Suc n)"
proof -
  have fl: "f < l" using outer_edges_cover(1) [OF assms(1,3)] .
  show ?thesis
  proof (cases "bin_width lib method a = 0")
    case True
    then have "bin_edges lib method a = np_linspace f l (Suc 1)"
      using assms(1,3) by (simp add: bin_edges_def)
    then show ?thesis by (intro exI [of _ 1]) simp
  next
    case False
    then have w: "0 < bin_width lib method a" using assms(2) by simp
    have "0 < (l - f) / bin_width lib method a" using fl w by simp
    then have pos: "0 < nat \<lceil>(l - f) / bin_width lib method a\<rceil>" by simp
    have "bin_edges lib method a
          = np_linspace f l (Suc (nat \<lceil>(l - f) / bin_width lib method a\<rceil>))"
      using assms(1,3) False by (simp add: bin_edges_def)
    then show ?thesis using pos by blast
  qed
qed

lemma histogram_counts_total:
  assumes "a \<noteq> []" and "0 \<le> bin_width lib method a"
    and "\<forall>x \<in> set xs. pf_isfinite x \<and> the_fin x \<in> set a"
  shows "sum_list (histogram_counts (bin_edges lib method a) xs) = length xs"
proof -
  obtain f l where fl: "outer_edges a = (f, l)" by (cases "outer_edges a")
  obtain n where n: "0 < n" "bin_edges lib method a = np_linspace f l (Suc n)"
    using bin_edges_shape [OF assms(1,2) fl] by blast
  have lt: "f < l" and cov: "\<forall>r \<in> set a. f \<le> r \<and> r \<le> l"
    using outer_edges_cover [OF assms(1) fl] by blast+
  have "sum_list (histogram_counts (np_linspace f l (Suc n)) xs)
        = length (filter (in_bin True (hd (np_linspace f l (Suc n))) (last (np_linspace f l (Suc n)))) xs)"
    using lt n(1) by (intro sum_histogram_counts np_linspace_sorted) (simp_all add: np_linspace_length)
  also have "\<dots> = length (filter (in_bin True f l) xs)"
    using n(1) by (simp add: np_linspace_hd np_linspace_last)
  also have "\<dots> = length xs"
  proof -
    have "in_bin True f l x" if "x \<in> set xs" for x
    proof -
      have fx: "pf_isfinite x" "the_fin x \<in> set a" using assms(3) that by blast+
      obtain r where r: "x = Fin r" using fx(1) by (cases x) simp_all
      then have "r \<in> set a" using fx(2) by simp
      then show ?thesis using cov r by auto
    qed
    then show ?thesis by simp
  qed
  finally show ?thesis unfolding n(2) .
qed

lemma js_numeric_self:
  assumes "\<exists>v \<in> set xv. pf_isfinite v" and "\<forall>a. 0 \<le> bin_width lib ''doane'' a"
    and "0 < base" and "base \<noteq> 1"
  shows "js_numeric lib xv xv base = RFloat (Fin 0)"
proof -
  define fx where "fx = filter pf_isfinite xv"
  define a where "a = map the_fin (fx @ fx)"
  define cs where "cs = histogram_counts (bin_edges lib ''doane'' a) fx"
  have ne: "fx \<noteq> []" using assms(1) by (auto simp: fx_def filter_empty_conv)
  then have a: "a \<noteq> []" by (simp add: a_def)
  have "\<forall>x \<in> set fx. pf_isfinite x \<and> the_fin x \<in> set a"
    by (auto simp: fx_def a_def)
  then have total: "sum_list cs = length fx"
    unfolding cs_def using a assms(2) by (intro histogram_counts_total) simp_all
  have "sum_list (map real cs) = real (sum_list cs)"
    by (induction cs) simp_all
  then have s: "sum_list (map real cs) \<noteq> 0" using total ne by simp
  have nn: "\<forall>r \<in> set (map real cs). 0 \<le> r" by simp
  have "js_divergence_tail (map Fin (map real cs)) (map Fin (map real cs)) base = RFloat (Fin 0)"
    using nn s assms(3,4) by (rule js_divergence_tail_self)
  then show ?thesis
    unfolding js_numeric_def Let_def fx_def [symmetric] a_def [symmetric] cs_def [symmetric]
    by (simp add: comp_def)
qed





section \<open>Properties of the orchestration\<close>

subsection \<open>The class bound to \<^verbatim>\<open>Measurement\<close>\<close>

lemma last_resolved_Nil [simp]: "last_resolved [] = None"
  by (simp add: last_resolved_def List.map_filter_simps)

lemma map_filter_append: "List.map_filter f (xs @ ys) = List.map_filter f xs @ List.map_filter f ys"
  by (simp add: List.map_filter_def)

lemma last_resolved_append:
  "last_resolved (ns @ ms) = (case last_resolved ms of None \<Rightarrow> last_resolved ns | Some M \<Rightarrow> Some M)"
  by (simp add: last_resolved_def map_filter_append split: list.splits)

lemma last_resolved_single: "last_resolved [t] = resolve t"
  by (simp add: last_resolved_def List.map_filter_simps split: option.splits)

lemma bound_after_Nil [simp]: "bound_after m [] = m"
  by (simp add: bound_after_def)

lemma bound_after_append: "bound_after m (ns @ ms) = bound_after (bound_after m ns) ms"
  by (simp add: bound_after_def last_resolved_append split: option.splits)

lemma bound_after_Cons: "bound_after m (n # ns) = bound_after (bound_after m [n]) ns"
  using bound_after_append [of m "[n]" ns] by simp

lemma bound_after_single: "bound_after m [t] = (case resolve t of None \<Rightarrow> m | Some M \<Rightarrow> Some M)"
  by (simp add: bound_after_def last_resolved_single)

lemma bound_after_None: "bound_after None names = last_resolved names"
  by (simp add: bound_after_def split: option.splits)

subsection \<open>The loop over the measurement types\<close>

lemma measurement_type_step_eq:
  "measurement_type_step env ds P md kw (t, c) (vars, pr, pl) =
     (vars\<lparr>Measurement := bound_after (Measurement vars) [t],
           measurement_results := Some (fst (attempt env ds P md kw (bound_after (Measurement vars) [t]) c)),
           measurement_logs := Some (snd (attempt env ds P md kw (bound_after (Measurement vars) [t]) c))\<rparr>,
      AList.update t (fst (attempt env ds P md kw (bound_after (Measurement vars) [t]) c)) pr,
      AList.update t (snd (attempt env ds P md kw (bound_after (Measurement vars) [t]) c)) pl)"
  by (cases "resolve t")
     (simp_all add: measurement_type_step_def bound_after_single Let_def split: prod.splits)

lemma mt_loop_Measurement:
  "Measurement (fst (measurement_types_loop env ds P md kw M st))
     = bound_after (Measurement (fst st)) (map fst M)"
proof (induction M arbitrary: st)
  case Nil
  then show ?case by simp
next
  case (Cons e M)
  obtain t c where e: "e = (t, c)" by (cases e)
  obtain vars pr pl where st: "st = (vars, pr, pl)" by (cases st)
  show ?case
    unfolding e st measurement_types_loop.simps Cons.IH measurement_type_step_eq
    by (simp add: bound_after_Cons [of "Measurement vars" t "map fst M"])
qed

lemma mt_loop_other:
  "t \<notin> fst ` set M \<Longrightarrow>
   map_of (fst (snd (measurement_types_loop env ds P md kw M st))) t = map_of (fst (snd st)) t
   \<and> map_of (snd (snd (measurement_types_loop env ds P md kw M st))) t = map_of (snd (snd st)) t"
proof (induction M arbitrary: st)
  case Nil
  then show ?case by simp
next
  case (Cons e M)
  obtain k c where e: "e = (k, c)" by (cases e)
  obtain vars pr pl where st: "st = (vars, pr, pl)" by (cases st)
  have kt: "k \<noteq> t" and tM: "t \<notin> fst ` set M" using Cons.prems e by auto
  show ?case
    unfolding e st measurement_types_loop.simps measurement_type_step_eq
    using Cons.IH [OF tM] kt by (simp add: update_conv')
qed

lemma mt_loop_entry:
  assumes "distinct (map fst (pre @ (t, c) # post))"
  shows "map_of (fst (snd (measurement_types_loop env ds P md kw (pre @ (t, c) # post) st))) t
           = Some (fst (attempt env ds P md kw (bound_after (Measurement (fst st)) (map fst pre @ [t])) c))
       \<and> map_of (snd (snd (measurement_types_loop env ds P md kw (pre @ (t, c) # post) st))) t
           = Some (snd (attempt env ds P md kw (bound_after (Measurement (fst st)) (map fst pre @ [t])) c))"
  using assms
proof (induction pre arbitrary: st)
  case Nil
  obtain vars pr pl where st: "st = (vars, pr, pl)" by (cases st)
  have tp: "t \<notin> fst ` set post" using Nil.prems by auto
  show ?case
    unfolding st append_Nil measurement_types_loop.simps measurement_type_step_eq
    by (simp add: mt_loop_other [OF tp] update_conv')
next
  case (Cons e pre)
  obtain k d where e: "e = (k, d)" by (cases e)
  obtain vars pr pl where st: "st = (vars, pr, pl)" by (cases st)
  have dist: "distinct (map fst (pre @ (t, c) # post))" using Cons.prems by simp
  show ?case
    unfolding e st append_Cons measurement_types_loop.simps measurement_type_step_eq
    using Cons.IH [OF dist]
    by (simp add: bound_after_Cons [of "Measurement vars" k "map fst pre @ [t]"])
qed

lemma mt_loop_keys:
  assumes "distinct (map fst pr @ map fst M)" and "map fst pl = map fst pr"
  shows "map fst (fst (snd (measurement_types_loop env ds P md kw M (vars, pr, pl)))) = map fst pr @ map fst M
       \<and> map fst (snd (snd (measurement_types_loop env ds P md kw M (vars, pr, pl)))) = map fst pr @ map fst M"
  using assms
proof (induction M arbitrary: vars pr pl)
  case Nil
  then show ?case by simp
next
  case (Cons e M)
  obtain k c where e: "e = (k, c)" by (cases e)
  have k: "k \<notin> set (map fst pr)" using Cons.prems(1) e by auto
  then have k': "k \<notin> set (map fst pl)" using Cons.prems(2) by simp
  have d: "distinct (map fst (AList.update k r pr) @ map fst M)" for r
    using Cons.prems(1) e k by (auto simp: update_keys)
  have q: "map fst (AList.update k l pl) = map fst (AList.update k r pr)" for l r
    using k k' Cons.prems(2) by (simp add: update_keys)
  show ?case
    unfolding e measurement_types_loop.simps measurement_type_step_eq
    using Cons.IH [OF d q] k by (simp add: update_keys)
qed

subsection \<open>The loop over the platforms\<close>

lemma except_subsetting_Measurement [simp]:
  "Measurement (except_subsetting P failure vars) = Measurement vars"
  by (simp add: except_subsetting_def split: option.splits)

lemma platform_step_eq:
  "platform_step env dataset md kw test (P, M) (vars, results, logs) =
     (fst (platform_pass env dataset md kw test P M vars),
      AList.update P (fst (snd (platform_pass env dataset md kw test P M vars))) results,
      AList.update P (snd (snd (platform_pass env dataset md kw test P M vars))) logs)"
  by (simp add: platform_step_def platform_pass_def Let_def case_prod_beta)

lemma platform_pass_Measurement:
  "Measurement (fst (platform_pass env dataset md kw test P M vars))
     = bound_after (Measurement vars) (map fst M)"
  by (simp add: platform_pass_def mt_loop_Measurement)

lemma names_of_Cons: "names_of ((P, M) # config) = map fst M @ names_of config"
  by (simp add: names_of_def)

lemma names_of_Nil [simp]: "names_of [] = []"
  by (simp add: names_of_def)

lemma pf_loop_Measurement:
  "Measurement (fst (platforms_loop env dataset md kw test config st))
     = bound_after (Measurement (fst st)) (names_of config)"
proof (induction config arbitrary: st)
  case Nil
  then show ?case by simp
next
  case (Cons e config)
  obtain P M where e: "e = (P, M)" by (cases e)
  obtain vars results logs where st: "st = (vars, results, logs)" by (cases st)
  show ?case
    unfolding e st platforms_loop.simps Cons.IH platform_step_eq
    by (simp add: platform_pass_Measurement names_of_Cons bound_after_append)
qed

lemma pf_loop_other:
  "P \<notin> fst ` set config \<Longrightarrow>
   map_of (fst (snd (platforms_loop env dataset md kw test config st))) P = map_of (fst (snd st)) P
   \<and> map_of (snd (snd (platforms_loop env dataset md kw test config st))) P = map_of (snd (snd st)) P"
proof (induction config arbitrary: st)
  case Nil
  then show ?case by simp
next
  case (Cons e config)
  obtain Q M where e: "e = (Q, M)" by (cases e)
  obtain vars results logs where st: "st = (vars, results, logs)" by (cases st)
  have QP: "Q \<noteq> P" and Pc: "P \<notin> fst ` set config" using Cons.prems e by auto
  show ?case
    unfolding e st platforms_loop.simps platform_step_eq
    using QP by (simp add: Cons.IH [OF Pc] update_conv')
qed

lemma pf_loop_entry:
  assumes "distinct (map fst (cpre @ (P, M) # cpost))"
  shows "map_of (fst (snd (platforms_loop env dataset md kw test (cpre @ (P, M) # cpost) st))) P
       = Some (fst (snd (platform_pass env dataset md kw test P M
                 (fst (platforms_loop env dataset md kw test cpre st)))))
     \<and> map_of (snd (snd (platforms_loop env dataset md kw test (cpre @ (P, M) # cpost) st))) P
       = Some (snd (snd (platform_pass env dataset md kw test P M
                 (fst (platforms_loop env dataset md kw test cpre st)))))"
  using assms
proof (induction cpre arbitrary: st)
  case Nil
  obtain vars results logs where st: "st = (vars, results, logs)" by (cases st)
  have Pc: "P \<notin> fst ` set cpost" using Nil.prems by auto
  show ?case
    unfolding st append_Nil platforms_loop.simps platform_step_eq
    by (simp add: pf_loop_other [OF Pc] update_conv')
next
  case (Cons e cpre)
  have dist: "distinct (map fst (cpre @ (P, M) # cpost))" using Cons.prems by simp
  show ?case
    unfolding append_Cons platforms_loop.simps
    by (rule Cons.IH [OF dist])
qed

lemma run_measurements_entry:
  fixes env :: "('d, 'c, 'm, 'e, 'f, 'x, 'y) collaborators"
  assumes "distinct (map fst (cpre @ (P, mpre @ (t, c) # mpost) # cpost))"
    and "distinct (map fst (mpre @ (t, c) # mpost))"
  shows "entry_at (run_measurements env dataset (cpre @ (P, mpre @ (t, c) # mpost) # cpost) md timing
                     v s sd sf test) P t
         = Some (attempt env (fst (subset_dataset env dataset P test)) P md
                   \<lparr>verbose = v, save = s, save_directory = sd, save_format = sf\<rparr>
                   (last_resolved (names_of cpre @ map fst mpre @ [t])) c)"
proof -
  let ?kw = "\<lparr>verbose = v, save = s, save_directory = sd, save_format = sf\<rparr>"
  define st :: "('e, 'f) locals \<times> 'e results \<times> 'f logs"
    where "st = (\<lparr>Measurement = None, measurement_results = None, measurement_logs = None\<rparr>, [], [])"
  have st0: "Measurement (fst st) = None" by (simp add: st_def)
  define vars1 where "vars1 = except_subsetting P (snd (subset_dataset env dataset P test))
                                (fst (platforms_loop env dataset md ?kw test cpre st))"
  have v1: "Measurement vars1 = last_resolved (names_of cpre)"
    by (simp add: vars1_def pf_loop_Measurement st0 bound_after_None)
  have b: "bound_after (Measurement vars1) (map fst mpre @ [t])
           = last_resolved (names_of cpre @ map fst mpre @ [t])"
    unfolding v1 bound_after_None [symmetric] bound_after_append [symmetric] ..
  note p = pf_loop_entry [OF assms(1), of env dataset md ?kw test st,
      unfolded platform_pass_def vars1_def [symmetric]]
  note e = mt_loop_entry [OF assms(2), of env "fst (subset_dataset env dataset P test)" P md ?kw
      "(vars1, [], [])", simplified fst_conv b]
  show ?thesis
    unfolding entry_at_def run_measurements_def Let_def st_def [symmetric]
    by (simp add: p e case_prod_beta)
qed

lemma pf_loop_keys:
  assumes "distinct (map fst results @ map fst config)" and "map fst logs = map fst results"
  shows "map fst (fst (snd (platforms_loop env dataset md kw test config (vars, results, logs))))
           = map fst results @ map fst config
       \<and> map fst (snd (snd (platforms_loop env dataset md kw test config (vars, results, logs))))
           = map fst results @ map fst config"
  using assms
proof (induction config arbitrary: vars results logs)
  case Nil
  then show ?case by simp
next
  case (Cons e config)
  obtain P M where e: "e = (P, M)" by (cases e)
  have k: "P \<notin> set (map fst results)" using Cons.prems(1) e by auto
  then have k': "P \<notin> set (map fst logs)" using Cons.prems(2) by simp
  have d: "distinct (map fst (AList.update P r results) @ map fst config)" for r
    using Cons.prems(1) e k by (auto simp: update_keys)
  have q: "map fst (AList.update P l logs) = map fst (AList.update P r results)" for l r
    using k k' Cons.prems(2) by (simp add: update_keys)
  show ?case
    unfolding e platforms_loop.simps platform_step_eq
    using Cons.IH [OF d q] k by (simp add: update_keys)
qed

lemma run_measurements_keys:
  assumes "distinct (map fst config)"
  shows "map fst (fst (run_measurements env dataset config md timing v s sd sf test)) = map fst config
       \<and> map fst (snd (run_measurements env dataset config md timing v s sd sf test)) = map fst config"
  using pf_loop_keys [of "[]" config "[]" env dataset md
      "\<lparr>verbose = v, save = s, save_directory = sd, save_format = sf\<rparr>" test
      "\<lparr>Measurement = None, measurement_results = None, measurement_logs = None\<rparr>"] assms
  by (simp add: run_measurements_def Let_def case_prod_beta)

lemma run_measurements_attempts:
  fixes env :: "('d, 'c, 'm, 'e, 'f, 'x, 'y) collaborators"
  assumes "distinct (map fst config)" and "(P, M) \<in> set config" and "distinct (map fst M)"
    and "(t, c) \<in> set M"
  shows "\<exists>m. entry_at (run_measurements env dataset config md timing v s sd sf test) P t
         = Some (attempt env (fst (subset_dataset env dataset P test)) P md
                   \<lparr>verbose = v, save = s, save_directory = sd, save_format = sf\<rparr> m c)"
proof -
  obtain cpre cpost where c: "config = cpre @ (P, M) # cpost"
    using assms(2) by (auto dest: split_list)
  obtain mpre mpost where m: "M = mpre @ (t, c) # mpost"
    using assms(4) by (auto dest: split_list)
  show ?thesis
    using run_measurements_entry [of cpre P mpre t c mpost cpost env dataset md timing v s sd sf test]
      assms(1,3)
    unfolding c m by blast
qed

lemma subset_dataset_failure:
  assumes "subset_dataset env dataset P test = (dataset_subset, Some error)"
  shows "dataset_subset = EmptyList \<or> test \<and> (\<exists>d. dataset_subset = Data d)"
  using assms
  by (auto simp: subset_dataset_def Let_def split: sum.splits if_splits)

lemmas run_eval = run_measurements_def platform_step_def measurement_type_step_def attempt_def
  subset_dataset_def except_subsetting_def resolve_def sample_env_def sample_select_def
  sample_subset_for_test_def sample_construct_def AList.update.simps


text \<open>
  Claim C2, as the code has it. A platform whose subsetting raises is not skipped. The
  handler has no \<^verbatim>\<open>continue\<close>, and \<^verbatim>\<open>dataset_subset\<close> was set to the empty
  list before the \<^verbatim>\<open>try\<close>: every configured measurement type of the platform is
  attempted on what is left of the dataset (the empty list, or the platform's rows when
  it was the reduction for tests that raised), and its result and log are filed under
  the platform's key. Every platform of the configuration has its entry in the results
  and in the logs, each measurement type attempted on the platform's own subset.
\<close>

theorem subsetting_failure_continues:
  fixes env :: "('d, 'c, 'm, 'e, 'f, 'x, 'y) collaborators"
  assumes "distinct (map fst config)" and "\<forall>(Q, N) \<in> set config. distinct (map fst N)"
    and "(P, M) \<in> set config"
    and "subset_dataset env dataset P test = (dataset_subset, Some error)"
  shows "(dataset_subset = EmptyList \<or> test \<and> (\<exists>d. dataset_subset = Data d))
       \<and> (\<forall>(t, c) \<in> set M. \<exists>m.
            entry_at (run_measurements env dataset config md timing v s sd sf test) P t
            = Some (attempt env dataset_subset P md
                      \<lparr>verbose = v, save = s, save_directory = sd, save_format = sf\<rparr> m c))
       \<and> (\<forall>(Q, N) \<in> set config. \<forall>(t, c) \<in> set N. \<exists>m.
            entry_at (run_measurements env dataset config md timing v s sd sf test) Q t
            = Some (attempt env (fst (subset_dataset env dataset Q test)) Q md
                      \<lparr>verbose = v, save = s, save_directory = sd, save_format = sf\<rparr> m c))
       \<and> map fst (fst (run_measurements env dataset config md timing v s sd sf test)) = map fst config
       \<and> map fst (snd (run_measurements env dataset config md timing v s sd sf test)) = map fst config"
proof -
  have all: "\<exists>m. entry_at (run_measurements env dataset config md timing v s sd sf test) Q t
            = Some (attempt env (fst (subset_dataset env dataset Q test)) Q md
                      \<lparr>verbose = v, save = s, save_directory = sd, save_format = sf\<rparr> m c)"
    if "(Q, N) \<in> set config" "(t, c) \<in> set N" for Q N t c
  proof -
    have "distinct (map fst N)" using assms(2) that(1) by blast
    then show ?thesis using assms(1) that by (intro run_measurements_attempts)
  qed
  have ds: "fst (subset_dataset env dataset P test) = dataset_subset" using assms(4) by simp
  have a: "\<forall>(t, c) \<in> set M. \<exists>m.
            entry_at (run_measurements env dataset config md timing v s sd sf test) P t
            = Some (attempt env dataset_subset P md
                      \<lparr>verbose = v, save = s, save_directory = sd, save_format = sf\<rparr> m c)"
    using all [OF assms(3)] unfolding ds by blast
  have b: "\<forall>(Q, N) \<in> set config. \<forall>(t, c) \<in> set N. \<exists>m.
            entry_at (run_measurements env dataset config md timing v s sd sf test) Q t
            = Some (attempt env (fst (subset_dataset env dataset Q test)) Q md
                      \<lparr>verbose = v, save = s, save_directory = sd, save_format = sf\<rparr> m c)"
    using all by blast
  note k = run_measurements_keys [OF assms(1), of env dataset md timing v s sd sf test]
  show ?thesis
    by (intro conjI subset_dataset_failure [OF assms(4)] a b k [THEN conjunct1] k [THEN conjunct2])
qed


theorem subsetting_failure_continues_witness:
  "subset_dataset sample_env (Some [''reddit'', ''reddit'']) ''twitter'' True
     = (Data (Some []), Some ValueError)
   \<and> entry_at (run_measurements sample_env (Some [''reddit'', ''reddit''])
                 [(''twitter'', [(''social_activity'', 1)]), (''reddit'', [(''recurrence'', 5)])] ()
                 False False False ''./'' ''json'' True) ''twitter'' ''social_activity''
     = Some (Some 1, Logs SocialActivityMeasurements)
   \<and> entry_at (run_measurements sample_env (Some [''reddit'', ''reddit''])
                 [(''twitter'', [(''social_activity'', 1)]), (''reddit'', [(''recurrence'', 5)])] ()
                 False False False ''./'' ''json'' True) ''reddit'' ''recurrence''
     = Some (Some 6, Logs RecurrenceMeasurements)"
proof -
  have f: "subset_dataset sample_env (Some [''reddit'', ''reddit'']) ''twitter'' True
     = (Data (Some []), Some ValueError)"
    by (simp add: run_eval)
  have d: "distinct (map fst [(''twitter'', [(''social_activity'', 1::nat)]), (''reddit'', [(''recurrence'', 5)])])"
    by simp
  have n: "\<forall>(Q, N) \<in> set [(''twitter'', [(''social_activity'', 1::nat)]), (''reddit'', [(''recurrence'', 5)])].
             distinct (map fst N)"
    by simp
  have p: "(''twitter'', [(''social_activity'', 1::nat)])
           \<in> set [(''twitter'', [(''social_activity'', 1)]), (''reddit'', [(''recurrence'', 5)])]"
    by simp
  show ?thesis
    using f subsetting_failure_continues [OF d n p f, of "()" False False False "''./''" "''json''"]
    by (simp add: run_eval entry_at_def)
qed

text \<open>
  The claim as stated fails: the reduction for tests raises on the empty selection of
  \<^verbatim>\<open>twitter\<close>, and the logs returned under \<^verbatim>\<open>twitter\<close> hold no entry for that
  failure but the log of the measurement type, which was constructed and run.
\<close>

theorem subsetting_failure_counterexample:
  "subset_dataset sample_env (Some [''reddit'']) ''twitter'' True = (Data (Some []), Some ValueError)
   \<and> run_measurements sample_env (Some [''reddit'']) [(''twitter'', [(''social_activity'', 1)])] ()
        False False False ''./'' ''json'' True
     = ([(''twitter'', [(''social_activity'', Some 1)])],
        [(''twitter'', [(''social_activity'', Logs SocialActivityMeasurements)])])"
  by (simp add: run_eval)


subsection \<open>A measurement type of an unknown name\<close>

lemma resolve_unknown: "t \<notin> set known_measurement_types \<Longrightarrow> resolve t = None"
  by (simp add: known_measurement_types_def resolve_def)

lemma resolve_known: "t \<in> set known_measurement_types \<Longrightarrow> resolve t \<noteq> None"
  by (auto simp add: known_measurement_types_def resolve_def)

lemma last_resolved_unknown:
  "t \<notin> set known_measurement_types \<Longrightarrow> last_resolved (names @ [t]) = last_resolved names"
  by (simp add: last_resolved_append last_resolved_single resolve_unknown)

lemma attempt_unbound:
  "attempt env ds P md kw None c
     = (None, Status ''Failed to instantiate measurements object'' UnboundLocalError)"
  by (simp add: attempt_def)

lemma attempt_cases:
  "(\<exists>r l. attempt env ds P md kw m c = (Some r, Logs l))
   \<or> (\<exists>e. attempt env ds P md kw m c = (None, Status ''Measurements object failed to run.'' e))
   \<or> (\<exists>e. attempt env ds P md kw m c = (None, Status ''Failed to instantiate measurements object'' e))"
  by (auto simp: attempt_def split: option.splits sum.splits prod.splits)


text \<open>
  Claim C9. A measurement-type name that is none of the seven known names binds no
  class, and nothing reports it: the entry filed for it is the outcome of constructing
  and running the class most recently bound by an earlier iteration, over measurement
  types and platforms alike. When no class was bound before, reading
  \<^verbatim>\<open>Measurement\<close> raises inside the \<^verbatim>\<open>try\<close> and the entry is the
  instantiation failure. In every case the entry is the logs of a run, a failure to run
  or a failure to instantiate: no entry speaks of the name.
\<close>

theorem unknown_measurement_type_reuses_class:
  fixes env :: "('d, 'c, 'm, 'e, 'f, 'x, 'y) collaborators"
  assumes "distinct (map fst (cpre @ (P, mpre @ (t, c) # mpost) # cpost))"
    and "distinct (map fst (mpre @ (t, c) # mpost))"
    and "t \<notin> set known_measurement_types"
  shows "entry_at (run_measurements env dataset (cpre @ (P, mpre @ (t, c) # mpost) # cpost) md timing
                     v s sd sf test) P t
         = Some (attempt env (fst (subset_dataset env dataset P test)) P md
                   \<lparr>verbose = v, save = s, save_directory = sd, save_format = sf\<rparr>
                   (last_resolved (names_of cpre @ map fst mpre)) c)
       \<and> (last_resolved (names_of cpre @ map fst mpre) = None \<longrightarrow>
            entry_at (run_measurements env dataset (cpre @ (P, mpre @ (t, c) # mpost) # cpost) md
                        timing v s sd sf test) P t
            = Some (None, Status ''Failed to instantiate measurements object'' UnboundLocalError))
       \<and> ((\<exists>r l. entry_at (run_measurements env dataset (cpre @ (P, mpre @ (t, c) # mpost) # cpost)
                               md timing v s sd sf test) P t
                    = Some (Some r, Logs l))
          \<or> (\<exists>e. entry_at (run_measurements env dataset (cpre @ (P, mpre @ (t, c) # mpost) # cpost)
                               md timing v s sd sf test) P t
                    = Some (None, Status ''Measurements object failed to run.'' e))
          \<or> (\<exists>e. entry_at (run_measurements env dataset (cpre @ (P, mpre @ (t, c) # mpost) # cpost)
                               md timing v s sd sf test) P t
                    = Some (None, Status ''Failed to instantiate measurements object'' e)))"
proof -
  have l: "last_resolved (names_of cpre @ map fst mpre @ [t]) = last_resolved (names_of cpre @ map fst mpre)"
    using last_resolved_unknown [OF assms(3), of "names_of cpre @ map fst mpre"] by simp
  have e: "entry_at (run_measurements env dataset (cpre @ (P, mpre @ (t, c) # mpost) # cpost) md timing
                     v s sd sf test) P t
         = Some (attempt env (fst (subset_dataset env dataset P test)) P md
                   \<lparr>verbose = v, save = s, save_directory = sd, save_format = sf\<rparr>
                   (last_resolved (names_of cpre @ map fst mpre)) c)"
    using run_measurements_entry [OF assms(1,2), of env dataset md timing v s sd sf test]
    unfolding l .
  show ?thesis
    unfolding e
    using attempt_cases [of env "fst (subset_dataset env dataset P test)" P md
        "\<lparr>verbose = v, save = s, save_directory = sd, save_format = sf\<rparr>"
        "last_resolved (names_of cpre @ map fst mpre)" c]
    by (simp add: attempt_unbound)
qed


theorem unknown_measurement_type_reuses_class_witness:
  "''bogus'' \<notin> set known_measurement_types
   \<and> last_resolved [''recurrence'', ''social_activity''] = Some SocialActivityMeasurements
   \<and> entry_at (run_measurements sample_env (Some [''twitter'', ''reddit'', ''twitter''])
                 [(''reddit'', [(''recurrence'', 5)]),
                  (''twitter'', [(''social_activity'', 1), (''bogus'', 2)])] ()
                 False False False ''./'' ''json'' False) ''twitter'' ''bogus''
     = Some (Some 4, Logs SocialActivityMeasurements)
   \<and> entry_at (run_measurements sample_env (Some [''twitter''])
                 [(''twitter'', [(''bogus'', 2), (''social_activity'', 1)])] ()
                 False False False ''./'' ''json'' False) ''twitter'' ''bogus''
     = Some (None, Status ''Failed to instantiate measurements object'' UnboundLocalError)"
proof -
  have u: "''bogus'' \<notin> set known_measurement_types"
    by (simp add: known_measurement_types_def)
  have l: "last_resolved [''recurrence'', ''social_activity''] = Some SocialActivityMeasurements"
    by (simp add: last_resolved_def List.map_filter_simps resolve_def)
  have d1: "distinct (map fst ([(''reddit'', [(''recurrence'', 5::nat)])]
              @ (''twitter'', [(''social_activity'', 1)] @ (''bogus'', 2) # []) # []))"
    by simp
  have d2: "distinct (map fst ([(''social_activity'', 1::nat)] @ (''bogus'', 2) # []))"
    by simp
  have d3: "distinct (map fst ([] @ (''twitter'', [] @ (''bogus'', 2::nat) # [(''social_activity'', 1)]) # []))"
    by simp
  have d4: "distinct (map fst ([] @ (''bogus'', 2::nat) # [(''social_activity'', 1)]))"
    by simp
  show ?thesis
    using u l
      unknown_measurement_type_reuses_class [OF d1 d2 u, of sample_env
        "Some [''twitter'', ''reddit'', ''twitter'']" "()" False False False "''./''" "''json''" False]
      unknown_measurement_type_reuses_class [OF d3 d4 u, of sample_env
        "Some [''twitter'']" "()" False False False "''./''" "''json''" False]
    by (simp add: names_of_def attempt_def subset_dataset_def sample_env_def sample_select_def
        sample_construct_def last_resolved_def List.map_filter_simps resolve_def)
qed


section \<open>Properties of the task runner\<close>

lemma TaskRunner_call_self: "snd (TaskRunner_call env self dataset timing v s sd sf) = self"
  by (simp add: TaskRunner_call_def Let_def case_prod_beta)

lemma TaskRunner_call_ground_truth:
  "fst (TaskRunner_call env self dataset timing v s sd sf) = Inr (b, l) \<Longrightarrow>
   ground_truth_results b = self_ground_truth_results self
   \<and> ground_truth_logs l = self_ground_truth_logs self"
  by (auto simp: TaskRunner_call_def Let_def case_prod_beta chain_def split: sum.splits)

lemma TaskRunner_calls_self: "snd (TaskRunner_calls env self calls) = self"
  by (induction calls) (auto simp add: case_prod_beta TaskRunner_call_self)

lemma TaskRunner_calls_ground_truth:
  "Inr (b, l) \<in> set (fst (TaskRunner_calls env self calls)) \<Longrightarrow>
   ground_truth_results b = self_ground_truth_results self
   \<and> ground_truth_logs l = self_ground_truth_logs self"
proof (induction calls)
  case Nil
  then show ?case by simp
next
  case (Cons call calls)
  obtain d timing v s sd sf where call: "call = (d, timing, v, s, sd, sf)"
    by (cases call)
  from Cons.prems have "fst (TaskRunner_call env self d timing v s sd sf) = Inr (b, l)
      \<or> Inr (b, l) \<in> set (fst (TaskRunner_calls env self calls))"
    by (auto simp add: call case_prod_beta TaskRunner_call_self)
  then show ?case
  proof
    assume "fst (TaskRunner_call env self d timing v s sd sf) = Inr (b, l)"
    then show ?thesis by (rule TaskRunner_call_ground_truth)
  next
    assume "Inr (b, l) \<in> set (fst (TaskRunner_calls env self calls))"
    then show ?thesis by (rule Cons.IH)
  qed
qed



end
